theory Spec2Isabelle
  imports Complex_Main
begin

section \<open>JavaScript values\<close>

text \<open>
  A JavaScript \<^verbatim>\<open>number\<close> is modelled by a real number wherever the double
  arithmetic of the program is exact: the inputs on which the theorems of the sections on
  the Ollama service evaluate the code (zeros, ones, the integers 3, 4, 5, 9, 16, 25 and the
  quotients 3/5 and 4/5) are computed by IEEE-754 double arithmetic to the doubles nearest
  to the real results, and the literals \<^verbatim>\<open>0.6\<close> and \<^verbatim>\<open>0.8\<close> denote
  these same doubles. Rounding, overflow, underflow, infinities and NaN are the subject of
  the section on double arithmetic, which has the normalization once more, on doubles.
\<close>

type_synonym number = real

type_synonym vector = "number list"

text \<open>
  The values a response body can hold after JSON parsing. The elements of an array are
  numbers, as the declared type \<^verbatim>\<open>embedding: number[]\<close> has them; the fields of an
  object are an association list with distinct keys.
\<close>

datatype jsvalue =
    JUndefined
  | JNull
  | JBool bool
  | JNumber number
  | JString string
  | JArray vector
  | JObject "(string \<times> jsvalue) list"

text \<open>What \<^verbatim>\<open>!v\<close> negates: \<^verbatim>\<open>undefined\<close>, \<^verbatim>\<open>null\<close>, \<^verbatim>\<open>false\<close>,
  \<^verbatim>\<open>0\<close> and the empty string are falsy, every array and object is truthy.\<close>

fun truthy :: "jsvalue \<Rightarrow> bool" where
  "truthy JUndefined = False"
| "truthy JNull = False"
| "truthy (JBool b) = b"
| "truthy (JNumber n) = (n \<noteq> 0)"
| "truthy (JString s) = (s \<noteq> [])"
| "truthy (JArray v) = True"
| "truthy (JObject fields) = True"

text \<open>Reading the property \<^verbatim>\<open>embedding\<close> of a value that is neither
  \<^verbatim>\<open>null\<close> nor \<^verbatim>\<open>undefined\<close>: only an object can have it.\<close>

fun get_embedding :: "jsvalue \<Rightarrow> jsvalue" where
  "get_embedding (JObject fields) =
     (case map_of fields ''embedding'' of Some v \<Rightarrow> v | None \<Rightarrow> JUndefined)"
| "get_embedding v = JUndefined"

fun isArray :: "jsvalue \<Rightarrow> bool" where
  "isArray (JArray v) = True"
| "isArray v = False"

fun elements :: "jsvalue \<Rightarrow> vector" where
  "elements (JArray v) = v"
| "elements v = []"

text \<open>\<^verbatim>\<open>a || b\<close> on an optional string: the empty string is falsy as well.\<close>

fun or_default :: "string option \<Rightarrow> string \<Rightarrow> string" where
  "or_default None d = d"
| "or_default (Some s) d = (if s = [] then d else s)"

fun or_default_number :: "number option \<Rightarrow> number \<Rightarrow> number" where
  "or_default_number None d = d"
| "or_default_number (Some n) d = (if n = 0 then d else n)"

text \<open>What is thrown is a value: an \<^verbatim>\<open>Error\<close> or a \<^verbatim>\<open>TypeError\<close> with its
  message, or anything else (an error of another class, or a value that is no error), given
  by its message or its rendering as a string.\<close>

datatype error = Error string | TypeError string | Other string


section \<open>Vector normalization\<close>

text \<open>
  \<^verbatim>\<open>_normalizeVector\<close> of \<^verbatim>\<open>OllamaEmbeddingService.ts\<close> updates its argument in
  place; the model returns the array as it is after the call. The first loop accumulates
  the squares from left to right, the second divides every component.
\<close>

fun sum_of_squares :: "vector \<Rightarrow> number \<Rightarrow> number" where
  "sum_of_squares [] magnitude = magnitude"
| "sum_of_squares (x # xs) magnitude = sum_of_squares xs (magnitude + x * x)"

fun divide_components :: "vector \<Rightarrow> number \<Rightarrow> vector" where
  "divide_components [] magnitude = []"
| "divide_components (x # xs) magnitude = x / magnitude # divide_components xs magnitude"

text \<open>\<^verbatim>\<open>vector[0] = 1\<close>: an assignment at index 0 of an empty JavaScript array
  appends the element.\<close>

fun assign_first :: "vector \<Rightarrow> number \<Rightarrow> vector" where
  "assign_first [] v = [v]"
| "assign_first (x # xs) v = v # xs"

definition normalizeVector :: "vector \<Rightarrow> vector" where
  "normalizeVector vector =
     (let magnitude = sqrt (sum_of_squares vector 0) in
      if magnitude > 0 then divide_components vector magnitude
      else assign_first vector 1)"


section \<open>The Ollama embedding service\<close>

record OllamaEmbeddingConfig =
  config_apiEndpoint :: "string option"
  config_model :: "string option"
  config_dimensions :: "number option"
  config_version :: "string option"

record OllamaEmbeddingService =
  model :: string
  dimensions :: number
  version :: string
  apiEndpoint :: string

definition new_OllamaEmbeddingService :: "OllamaEmbeddingConfig \<Rightarrow> OllamaEmbeddingService" where
  "new_OllamaEmbeddingService config =
     \<lparr> model = or_default (config_model config) ''mxbai-embed-large'',
       dimensions = or_default_number (config_dimensions config) 1024,
       version = or_default (config_version config) ''1.0.0'',
       apiEndpoint = or_default (config_apiEndpoint config) ''http://localhost:11434/api/embeddings'' \<rparr>"

text \<open>The request \<^verbatim>\<open>axios.post\<close> is given, and how the call ends: the promise
  resolves with a response, of which the code reads \<^verbatim>\<open>data\<close>, or rejects. A
  rejection is an axios error (the status and body of the response it carries, when it
  carries one, and its message), or any other thrown value.\<close>

record request =
  url :: string
  prompt :: string
  request_model :: string
  headers :: "(string \<times> string) list"
  timeout :: nat

datatype thrown =
    AxiosError "nat option" jsvalue string
  | Thrown error

datatype outcome = Resolved jsvalue | Rejected thrown

text \<open>The endpoint is a state machine of an arbitrary state type: each request is
  answered in the state the previous one left.\<close>

type_synonym 'w endpoint = "request \<Rightarrow> 'w \<Rightarrow> outcome \<times> 'w"

text \<open>What a call did, in order: the requests it issued and the vectors it handed to
  \<^verbatim>\<open>_normalizeVector\<close>.\<close>

datatype step = Post request | Normalize vector

text \<open>\<^verbatim>\<open>_getErrorMessage\<close>: the message of an error, the rendering of any other
  value.\<close>

fun message_of :: "error \<Rightarrow> string" where
  "message_of (Error m) = m"
| "message_of (TypeError m) = m"
| "message_of (Other s) = s"

fun getErrorMessage :: "thrown \<Rightarrow> string" where
  "getErrorMessage (AxiosError status body m) = m"
| "getErrorMessage (Thrown e) = message_of e"

text \<open>Decimal rendering of a status code inside the template literal.\<close>

fun digit :: "nat \<Rightarrow> char" where
  "digit n = char_of (48 + n)"

function show_nat :: "nat \<Rightarrow> string" where
  "show_nat n = (if n < 10 then [digit n] else show_nat (n div 10) @ [digit (n mod 10)])"
  by pat_completeness auto
termination
  by (relation "measure id") auto

declare show_nat.simps [simp del]

definition make_request :: "OllamaEmbeddingService \<Rightarrow> string \<Rightarrow> request" where
  "make_request this text =
     \<lparr> url = apiEndpoint this, prompt = text, request_model = model this,
       headers = [(''Content-Type'', ''application/json'')], timeout = 10000 \<rparr>"

text \<open>The body of the \<^verbatim>\<open>try\<close> block of \<^verbatim>\<open>generateEmbedding\<close>: what it returns
  or throws, the steps it took, and the state of the endpoint afterwards.\<close>

definition generateEmbedding_try ::
  "'w endpoint \<Rightarrow> OllamaEmbeddingService \<Rightarrow> string \<Rightarrow> 'w \<Rightarrow> (thrown + vector) \<times> step list \<times> 'w" where
  "generateEmbedding_try post this text w =
     (let req = make_request this text in
      case post req w of
        (Rejected t, w') \<Rightarrow> (Inl t, [Post req], w')
      | (Resolved data, w') \<Rightarrow>
          if \<not> truthy data \<or> \<not> truthy (get_embedding data) then
            (Inl (Thrown (Error ''Invalid response from Ollama API - missing embedding data'')),
             [Post req], w')
          else
            let embedding = get_embedding data in
            if \<not> truthy embedding \<or> \<not> isArray embedding \<or> length (elements embedding) = 0 then
              (Inl (Thrown (Error ''Invalid embedding returned from Ollama API'')), [Post req], w')
            else
              (Inr (normalizeVector (elements embedding)),
               [Post req, Normalize (elements embedding)], w'))"

text \<open>The \<^verbatim>\<open>catch\<close> block: the error it throws in place of the one caught.
  \<^verbatim>\<open>JSON.stringify\<close> is a parameter.\<close>

definition generateEmbedding_catch :: "(jsvalue \<Rightarrow> string) \<Rightarrow> thrown \<Rightarrow> error" where
  "generateEmbedding_catch stringify t =
     (case t of
        AxiosError statusCode responseData m \<Rightarrow>
          (let errorDetails =
                 (if truthy responseData then '': '' @ take 200 (stringify responseData) else [])
           in Error (''Ollama API error ('' @
                (case statusCode of None \<Rightarrow> ''unknown''
                 | Some n \<Rightarrow> if n = 0 then ''unknown'' else show_nat n) @ '')'' @ errorDetails))
      | _ \<Rightarrow> Error (''Error generating embedding: '' @ getErrorMessage t))"

definition generateEmbedding ::
  "(jsvalue \<Rightarrow> string) \<Rightarrow> 'w endpoint \<Rightarrow> OllamaEmbeddingService \<Rightarrow> string \<Rightarrow> 'w
     \<Rightarrow> (error + vector) \<times> step list \<times> 'w" where
  "generateEmbedding stringify post this text w =
     (case generateEmbedding_try post this text w of
        (Inr embedding, steps, w') \<Rightarrow> (Inr embedding, steps, w')
      | (Inl t, steps, w') \<Rightarrow> (Inl (generateEmbedding_catch stringify t), steps, w'))"

text \<open>\<^verbatim>\<open>generateEmbeddings\<close>: the \<^verbatim>\<open>for\<close> loop over the texts, pushing each
  awaited vector onto \<^verbatim>\<open>embeddings\<close>; an error thrown by a call leaves the loop and
  the function. \<open>trace\<close> collects the steps of the calls made so far.\<close>

fun generateEmbeddings_loop ::
  "(jsvalue \<Rightarrow> string) \<Rightarrow> 'w endpoint \<Rightarrow> OllamaEmbeddingService \<Rightarrow> string list
     \<Rightarrow> vector list \<Rightarrow> step list \<Rightarrow> 'w \<Rightarrow> (error + vector list) \<times> step list \<times> 'w" where
  "generateEmbeddings_loop stringify post this [] embeddings trace w = (Inr embeddings, trace, w)"
| "generateEmbeddings_loop stringify post this (text # texts) embeddings trace w =
     (case generateEmbedding stringify post this text w of
        (Inl e, steps, w') \<Rightarrow> (Inl e, trace @ steps, w')
      | (Inr embedding, steps, w') \<Rightarrow>
          generateEmbeddings_loop stringify post this texts (embeddings @ [embedding])
            (trace @ steps) w')"

definition generateEmbeddings ::
  "(jsvalue \<Rightarrow> string) \<Rightarrow> 'w endpoint \<Rightarrow> OllamaEmbeddingService \<Rightarrow> string list \<Rightarrow> 'w
     \<Rightarrow> (error + vector list) \<times> step list \<times> 'w" where
  "generateEmbeddings stringify post this texts w =
     generateEmbeddings_loop stringify post this texts [] [] w"

record EmbeddingModelInfo =
  info_name :: string
  info_dimensions :: number
  info_version :: string

definition ollama_getModelInfo :: "OllamaEmbeddingService \<Rightarrow> EmbeddingModelInfo" where
  "ollama_getModelInfo this =
     \<lparr> info_name = model this, info_dimensions = dimensions this, info_version = version this \<rparr>"

fun requests_of :: "step list \<Rightarrow> request list" where
  "requests_of [] = []"
| "requests_of (Post r # steps) = r # requests_of steps"
| "requests_of (Normalize v # steps) = requests_of steps"

section \<open>Double arithmetic\<close>

text \<open>
  The numbers of the program are IEEE-754 doubles, and far from 1 their arithmetic leaves
  the real numbers: a product too large becomes \<^verbatim>\<open>Infinity\<close>, one too small becomes
  0. This section has the doubles themselves, for the inputs on which that happens: a
  finite double is its sign (\<open>True\<close> for minus) and its magnitude, a real number, so the
  two zeros are apart; then come the two infinities and \<^verbatim>\<open>NaN\<close>.
\<close>

datatype double = Finite bool real | Infinity bool | NaN

text \<open>Rounding to the nearest integer, a tie to the even one.\<close>

definition round_half_even :: "real \<Rightarrow> int" where
  "round_half_even y =
     (let f = \<lfloor>y\<rfloor> in
      if y - of_int f < 1 / 2 then f
      else if y - of_int f > 1 / 2 then f + 1
      else if even f then f else f + 1)"

text \<open>
  The doubles next to a magnitude \<open>r > 0\<close> are the multiples of \<open>2\<close> to the power
  \<open>\<lfloor>log\<^sub>2 r\<rfloor> - 52\<close> (53 significant bits), and of \<open>2\<close> to the power \<open>-1074\<close>
  in the subnormal range. The result of an operation is its exact value rounded to the
  nearest of them, a tie to the one with the even significand; a rounded magnitude of
  \<open>2\<close> to the power \<open>1024\<close> or more is an overflow, and the result infinite.
\<close>

definition quantum :: "real \<Rightarrow> real" where
  "quantum r = 2 powr of_int (max (\<lfloor>log 2 r\<rfloor> - 52) (- 1074))"

definition rounded :: "bool \<Rightarrow> real \<Rightarrow> double" where
  "rounded negative r =
     (if r = 0 then Finite negative 0
      else
        let v = of_int (round_half_even (r / quantum r)) * quantum r in
        if v \<ge> 2 ^ 1024 then Infinity negative else Finite negative v)"

text \<open>The double a decimal literal denotes: the one nearest to its value.\<close>

definition double_literal :: "real \<Rightarrow> double" where
  "double_literal x = rounded (x < 0) \<bar>x\<bar>"

fun signed_value :: "bool \<Rightarrow> real \<Rightarrow> real" where
  "signed_value negative r = (if negative then - r else r)"

text \<open>The operations \<^verbatim>\<open>*\<close>, \<^verbatim>\<open>+\<close>, \<^verbatim>\<open>/\<close>, \<^verbatim>\<open>Math.sqrt\<close> and the
  comparison \<^verbatim>\<open>> 0\<close>.\<close>

fun double_times :: "double \<Rightarrow> double \<Rightarrow> double" where
  "double_times (Finite s a) (Finite t b) = rounded (s \<noteq> t) (a * b)"
| "double_times (Finite s a) (Infinity t) = (if a = 0 then NaN else Infinity (s \<noteq> t))"
| "double_times (Infinity s) (Finite t b) = (if b = 0 then NaN else Infinity (s \<noteq> t))"
| "double_times (Infinity s) (Infinity t) = Infinity (s \<noteq> t)"
| "double_times NaN y = NaN"
| "double_times x NaN = NaN"

fun double_plus :: "double \<Rightarrow> double \<Rightarrow> double" where
  "double_plus (Finite s a) (Finite t b) =
     (let x = signed_value s a + signed_value t b in
      if x = 0 then Finite (s \<and> t) 0 else rounded (x < 0) \<bar>x\<bar>)"
| "double_plus (Finite s a) (Infinity t) = Infinity t"
| "double_plus (Infinity s) (Finite t b) = Infinity s"
| "double_plus (Infinity s) (Infinity t) = (if s = t then Infinity s else NaN)"
| "double_plus NaN y = NaN"
| "double_plus x NaN = NaN"

fun double_divide :: "double \<Rightarrow> double \<Rightarrow> double" where
  "double_divide (Finite s a) (Finite t b) =
     (if b = 0 then (if a = 0 then NaN else Infinity (s \<noteq> t))
      else rounded (s \<noteq> t) (a / b))"
| "double_divide (Finite s a) (Infinity t) = Finite (s \<noteq> t) 0"
| "double_divide (Infinity s) (Finite t b) = Infinity (s \<noteq> t)"
| "double_divide (Infinity s) (Infinity t) = NaN"
| "double_divide NaN y = NaN"
| "double_divide x NaN = NaN"

fun double_sqrt :: "double \<Rightarrow> double" where
  "double_sqrt (Finite s a) =
     (if a = 0 then Finite s 0 else if s then NaN else rounded False (sqrt a))"
| "double_sqrt (Infinity s) = (if s then NaN else Infinity False)"
| "double_sqrt NaN = NaN"

fun double_positive :: "double \<Rightarrow> bool" where
  "double_positive (Finite s a) = (\<not> s \<and> a > 0)"
| "double_positive (Infinity s) = (\<not> s)"
| "double_positive NaN = False"

text \<open>\<^verbatim>\<open>_normalizeVector\<close> once more, line by line as above, on doubles.\<close>

fun sum_of_squares_double :: "double list \<Rightarrow> double \<Rightarrow> double" where
  "sum_of_squares_double [] magnitude = magnitude"
| "sum_of_squares_double (x # xs) magnitude =
     sum_of_squares_double xs (double_plus magnitude (double_times x x))"

fun divide_components_double :: "double list \<Rightarrow> double \<Rightarrow> double list" where
  "divide_components_double [] magnitude = []"
| "divide_components_double (x # xs) magnitude =
     double_divide x magnitude # divide_components_double xs magnitude"

fun assign_first_double :: "double list \<Rightarrow> double \<Rightarrow> double list" where
  "assign_first_double [] v = [v]"
| "assign_first_double (x # xs) v = v # xs"

definition normalizeVector_double :: "double list \<Rightarrow> double list" where
  "normalizeVector_double vector =
     (let magnitude = double_sqrt (sum_of_squares_double vector (Finite False 0)) in
      if double_positive magnitude then divide_components_double vector magnitude
      else assign_first_double vector (Finite False 1))"


section \<open>The embedding service factory\<close>

text \<open>
  A service as the factory sees it. Of the classes that implement the contract only
  \<^verbatim>\<open>OllamaEmbeddingService\<close> is among the source files; an instance of any other
  class (the default service, the OpenAI service, whatever a registered constructor
  returns) is given by a label and by what its \<^verbatim>\<open>getModelInfo\<close> returns or throws
  at each call, the calls counted from the construction of the instance.
\<close>

datatype service =
    OllamaService OllamaEmbeddingService
  | OtherService string "nat \<Rightarrow> error + EmbeddingModelInfo"

fun getModelInfo :: "service \<Rightarrow> nat \<Rightarrow> error + EmbeddingModelInfo" where
  "getModelInfo (OllamaService this) k = Inr (ollama_getModelInfo this)"
| "getModelInfo (OtherService label info) k = info k"

text \<open>The named options of \<^verbatim>\<open>EmbeddingServiceConfig\<close>. The type admits further
  fields, which the factory hands on unread; a config of this model has none, so it has no
  property \<^verbatim>\<open>getModelInfo\<close>.\<close>

record EmbeddingServiceConfig =
  provider :: "string option"
  cfg_model :: "string option"
  cfg_dimensions :: "number option"
  apiKey :: "string option"
  cfg_apiEndpoint :: "string option"

text \<open>A provider function, as it is called: with a config, to return a service or
  throw.\<close>

type_synonym EmbeddingServiceProvider = "EmbeddingServiceConfig \<Rightarrow> error + service"

text \<open>
  \<^verbatim>\<open>String.prototype.toLowerCase\<close> belongs to the language, not to the repository,
  and maps letters of every script: it is a parameter \<open>toLowerCase\<close> of the functions
  that call it, and what is proved of them holds for every function on strings (a string of
  the model stands for a string of the program in a fixed encoding). Of the
  real one the model uses a single fact: its result holds no ASCII capital, so that of the
  property names of \<^verbatim>\<open>Object.prototype\<close> only \<^verbatim>\<open>constructor\<close> and
  \<^verbatim>\<open>__proto__\<close> can be the result.
\<close>

subsection \<open>The registry object\<close>

text \<open>
  The registry is the object \<^verbatim>\<open>providers\<close>, created by the literal \<^verbatim>\<open>{}\<close>:
  its own properties are the registered provider functions, and its prototype is
  \<^verbatim>\<open>Object.prototype\<close> until an assignment to \<^verbatim>\<open>providers['__proto__']\<close>
  replaces it by the function assigned.

  What reading \<^verbatim>\<open>providers[key]\<close> can give to \<^verbatim>\<open>createService\<close>: nothing (or
  another falsy value); a provider function; a truthy value that is no function; a function
  that is no provider, given by the error in which calling it with the config and asking
  the returned value for its model info ends; or the error that a getter throws.
\<close>

datatype lookup =
    NotFound
  | Registered EmbeddingServiceProvider
  | NotCallable
  | OtherFunction "EmbeddingServiceConfig \<Rightarrow> error"
  | GetterThrows error

text \<open>What an assignment \<^verbatim>\<open>providers[key] = f\<close> does for a key that the registry
  inherits: it creates the own property, or it throws, as the module is strict code and
  the inherited property may be read-only or an accessor that throws. (A function on which
  the program has defined a setter of its own is outside the model.)\<close>

datatype assignment = Stores | AssignmentThrows error

text \<open>
  A provider function is an object as well. Once it is the prototype of the registry, its
  properties (its own and those it inherits, as \<^verbatim>\<open>name\<close>, \<^verbatim>\<open>length\<close> or
  \<^verbatim>\<open>call\<close>) are read and assigned through the registry. They differ from function
  to function, so this view of a function is given by two tables, for every key but
  \<^verbatim>\<open>__proto__\<close>.
\<close>

record function_object =
  inherited_get :: "string \<Rightarrow> lookup"
  inherited_set :: "string \<Rightarrow> assignment"

datatype prototype =
    ObjectPrototype
  | FunctionPrototype EmbeddingServiceProvider function_object

record registry =
  own :: "string \<rightharpoonup> EmbeddingServiceProvider"
  proto :: prototype

text \<open>\<^verbatim>\<open>Object(config)\<close> returns the config object, which has no method
  \<^verbatim>\<open>getModelInfo\<close>: the call of that method throws. The messages of the two
  \<^verbatim>\<open>TypeError\<close>s below are those of V8.\<close>

definition object_constructor :: "EmbeddingServiceConfig \<Rightarrow> error" where
  "object_constructor config = TypeError ''service.getModelInfo is not a function''"

text \<open>
  Reading \<^verbatim>\<open>providers[key]\<close>: an own property first, a property of the prototype
  otherwise. \<^verbatim>\<open>Object.prototype\<close> has the function \<^verbatim>\<open>Object\<close> under
  \<^verbatim>\<open>constructor\<close>, and under \<^verbatim>\<open>__proto__\<close> the accessor that returns the
  prototype of the object it is read from: \<^verbatim>\<open>Object.prototype\<close> itself, an object
  and no function, or the provider function that has replaced it (which inherits the
  accessor).
\<close>

definition providers_get :: "registry \<Rightarrow> string \<Rightarrow> lookup" where
  "providers_get providers key =
     (case own providers key of
        Some providerFn \<Rightarrow> Registered providerFn
      | None \<Rightarrow>
          (case proto providers of
             ObjectPrototype \<Rightarrow>
               if key = ''constructor'' then OtherFunction object_constructor
               else if key = ''__proto__'' then NotCallable
               else NotFound
           | FunctionPrototype providerFn properties \<Rightarrow>
               if key = ''__proto__'' then Registered providerFn
               else inherited_get properties key))"

text \<open>
  \<^verbatim>\<open>registerProvider\<close>: the assignment
  \<^verbatim>\<open>providers[name.toLowerCase()] = provider\<close>. \<open>providerFn\<close> is the function as it
  is called and \<open>properties\<close> the same function as an object. An own property is
  overwritten. Otherwise the key \<^verbatim>\<open>__proto__\<close> reaches the setter of the accessor,
  which makes the function the prototype of the registry and creates no property; any
  other key becomes an own property, unless the registry inherits the key from a function
  and the assignment through that function does otherwise.
\<close>

definition registerProvider ::
  "(string \<Rightarrow> string) \<Rightarrow> string \<Rightarrow> EmbeddingServiceProvider \<Rightarrow> function_object \<Rightarrow> registry
     \<Rightarrow> error + registry" where
  "registerProvider toLowerCase name providerFn properties providers =
     (let key = toLowerCase name;
          stored = providers\<lparr>own := (own providers)(key \<mapsto> providerFn)\<rparr>
      in if own providers key \<noteq> None then Inr stored
         else if key = ''__proto__'' then
           Inr (providers\<lparr>proto := FunctionPrototype providerFn properties\<rparr>)
         else
           (case proto providers of
              ObjectPrototype \<Rightarrow> Inr stored
            | FunctionPrototype f inherited \<Rightarrow>
                (case inherited_set inherited key of
                   Stores \<Rightarrow> Inr stored
                 | AssignmentThrows e \<Rightarrow> Inl e)))"

definition resetRegistry :: registry where
  "resetRegistry = \<lparr> own = Map.empty, proto = ObjectPrototype \<rparr>"

subsection \<open>Creating a service\<close>

text \<open>Which provider function a call invoked, under which key, and with which config.\<close>

datatype invocation = Invoked string EmbeddingServiceConfig

definition resolve_name :: "(string \<Rightarrow> string) \<Rightarrow> EmbeddingServiceConfig \<Rightarrow> string" where
  "resolve_name toLowerCase config = toLowerCase (or_default (provider config) ''default'')"

text \<open>The message of the error for a name that is not registered: the name stands
  between double quotes (\<open>CHR 0x22\<close>).\<close>

definition not_registered_message :: "string \<Rightarrow> string" where
  "not_registered_message providerName =
     ''Provider '' @ [CHR 0x22] @ providerName @ [CHR 0x22] @ '' is not registered''"

text \<open>
  \<^verbatim>\<open>createService\<close>. The lookup stands before the \<^verbatim>\<open>try\<close> block, so the error
  of a getter leaves the function as it is. A truthy value that is no function, and a
  function that is no provider, throw inside the \<^verbatim>\<open>try\<close> block, whose
  \<^verbatim>\<open>catch\<close> throws the error again. The calls of the logger in this function are
  taken to return.
\<close>

definition createService ::
  "(string \<Rightarrow> string) \<Rightarrow> registry \<Rightarrow> EmbeddingServiceConfig
     \<Rightarrow> (error + service) \<times> invocation list" where
  "createService toLowerCase providers config =
     (let providerName = resolve_name toLowerCase config in
      case providers_get providers providerName of
        GetterThrows e \<Rightarrow> (Inl e, [])
      | Registered providerFn \<Rightarrow>
          (case providerFn config of
             Inl e \<Rightarrow> (Inl e, [Invoked providerName config])
           | Inr service \<Rightarrow>
               (case getModelInfo service 0 of
                  Inl e \<Rightarrow> (Inl e, [Invoked providerName config])
                | Inr modelInfo \<Rightarrow> (Inr service, [Invoked providerName config])))
      | OtherFunction f \<Rightarrow> (Inl (f config), [])
      | NotCallable \<Rightarrow> (Inl (TypeError ''providerFn is not a function''), [])
      | NotFound \<Rightarrow>
          (Inl (Error (not_registered_message providerName)), []))"

subsection \<open>A service from the environment\<close>

text \<open>
  The module \<^verbatim>\<open>logger\<close> is not among the source files: it is a parameter. A call
  is given by the method called and by the message, and it returns (\<open>None\<close>) or throws.
  The further argument of a call is evaluated before the call, and is otherwise not part
  of the model.
\<close>

datatype level = LogDebug | LogInfo | LogError

type_synonym logger = "level \<Rightarrow> string \<Rightarrow> error option"

definition environment_config :: "(string \<rightharpoonup> string) \<Rightarrow> EmbeddingServiceConfig" where
  "environment_config env =
     \<lparr> provider = Some (or_default (env ''EMBEDDING_PROVIDER'') ''default''),
       cfg_model = env ''EMBEDDING_MODEL'',
       cfg_dimensions = None,
       apiKey = env ''OPENAI_API_KEY'',
       cfg_apiEndpoint = env ''OLLAMA_API_ENDPOINT'' \<rparr>"

text \<open>The \<^verbatim>\<open>try\<close> block of \<^verbatim>\<open>createFromEnvironment\<close>: the call of the
  logger, \<^verbatim>\<open>createService\<close>, the two calls of \<^verbatim>\<open>getModelInfo\<close> that make the
  argument of the second call of the logger, and that call.\<close>

definition createFromEnvironment_try ::
  "logger \<Rightarrow> (string \<Rightarrow> string) \<Rightarrow> registry \<Rightarrow> string \<Rightarrow> EmbeddingServiceConfig
     \<Rightarrow> (error + service) \<times> invocation list" where
  "createFromEnvironment_try logger toLowerCase providers providerName config =
     (case logger LogDebug
             (''EmbeddingServiceFactory: Creating '' @ providerName @ '' embedding service'') of
        Some e \<Rightarrow> (Inl e, [])
      | None \<Rightarrow>
          (case createService toLowerCase providers config of
             (Inl e, calls) \<Rightarrow> (Inl e, calls)
           | (Inr service, calls) \<Rightarrow>
               (case getModelInfo service 1 of
                  Inl e \<Rightarrow> (Inl e, calls)
                | Inr info1 \<Rightarrow>
                    (case getModelInfo service 2 of
                       Inl e \<Rightarrow> (Inl e, calls)
                     | Inr info2 \<Rightarrow>
                         (case logger LogInfo
                                 (''EmbeddingServiceFactory: '' @ providerName @
                                  '' embedding service created successfully'') of
                            Some e \<Rightarrow> (Inl e, calls)
                          | None \<Rightarrow> (Inr service, calls))))))"

text \<open>
  \<^verbatim>\<open>createFromEnvironment\<close>. \<open>env\<close> is \<^verbatim>\<open>process.env\<close>. The class
  \<^verbatim>\<open>DefaultEmbeddingService\<close> is not among the source files, so its constructor is
  the parameter \<open>new_Default\<close>, applied to the optional dimensions. The first call of
  the logger and the one of the mock branch stand outside the \<^verbatim>\<open>try\<close> block; the
  \<^verbatim>\<open>catch\<close> block calls the logger twice before it constructs the default service.
\<close>

definition createFromEnvironment ::
  "logger \<Rightarrow> (string \<Rightarrow> string) \<Rightarrow> (number option \<Rightarrow> error + service)
     \<Rightarrow> (string \<rightharpoonup> string) \<Rightarrow> registry \<Rightarrow> (error + service) \<times> invocation list" where
  "createFromEnvironment logger toLowerCase new_Default env providers =
     (let useMockEmbeddings = (env ''MOCK_EMBEDDINGS'' = Some ''true'') in
      case logger LogDebug
             ''EmbeddingServiceFactory: Creating service from environment variables'' of
        Some e \<Rightarrow> (Inl e, [])
      | None \<Rightarrow>
          if useMockEmbeddings then
            (case logger LogInfo ''EmbeddingServiceFactory: Using mock embeddings for testing'' of
               Some e \<Rightarrow> (Inl e, [])
             | None \<Rightarrow> (new_Default None, []))
          else
            let providerName = or_default (env ''EMBEDDING_PROVIDER'') ''default'' in
            case createFromEnvironment_try logger toLowerCase providers providerName
                   (environment_config env) of
              (Inr service, calls) \<Rightarrow> (Inr service, calls)
            | (Inl caught, calls) \<Rightarrow>
                (case logger LogError
                        (''EmbeddingServiceFactory: Failed to create '' @ providerName @
                         '' service'') of
                   Some e \<Rightarrow> (Inl e, calls)
                 | None \<Rightarrow>
                     (case logger LogInfo
                             ''EmbeddingServiceFactory: Falling back to default embedding service'' of
                        Some e \<Rightarrow> (Inl e, calls)
                      | None \<Rightarrow> (new_Default None, calls))))"

subsection \<open>The built-in registrations\<close>

text \<open>The registrations made when the module is loaded, each on the registry the
  previous one left. The constructor of \<^verbatim>\<open>OpenAIEmbeddingService\<close> is a parameter as
  well, and so are the three arrow functions as objects.\<close>

definition default_provider :: "(number option \<Rightarrow> error + service) \<Rightarrow> EmbeddingServiceProvider" where
  "default_provider new_Default config = new_Default (cfg_dimensions config)"

definition openai_provider :: "EmbeddingServiceProvider \<Rightarrow> EmbeddingServiceProvider" where
  "openai_provider new_OpenAI config =
     (if or_default (apiKey config) [] = [] then
        Inl (Error ''API key is required for OpenAI embedding service'')
      else new_OpenAI config)"

definition ollama_provider :: EmbeddingServiceProvider where
  "ollama_provider config =
     Inr (OllamaService (new_OllamaEmbeddingService
       \<lparr> config_apiEndpoint = cfg_apiEndpoint config, config_model = cfg_model config,
         config_dimensions = cfg_dimensions config, config_version = None \<rparr>))"

definition builtin_providers ::
  "(string \<Rightarrow> string) \<Rightarrow> (number option \<Rightarrow> error + service) \<Rightarrow> EmbeddingServiceProvider
     \<Rightarrow> function_object \<Rightarrow> error + registry" where
  "builtin_providers toLowerCase new_Default new_OpenAI properties =
     (case registerProvider toLowerCase ''default'' (default_provider new_Default) properties
             resetRegistry of
        Inl e \<Rightarrow> Inl e
      | Inr providers1 \<Rightarrow>
          (case registerProvider toLowerCase ''openai'' (openai_provider new_OpenAI) properties
                  providers1 of
             Inl e \<Rightarrow> Inl e
           | Inr providers2 \<Rightarrow>
               registerProvider toLowerCase ''ollama'' ollama_provider properties providers2))"


section \<open>Example inputs\<close>

text \<open>An endpoint that records the prompts it is sent and answers by the prompt: a
  vector, the zero vector, an empty vector, a body without the field, and an error status
  for everything else.\<close>

definition example_post :: "string list endpoint" where
  "example_post req prompts =
     ((if prompt req = ''a'' then Resolved (JObject [(''embedding'', JArray [3, 4])])
       else if prompt req = ''b'' then Resolved (JObject [(''embedding'', JArray [0, 0])])
       else if prompt req = ''c'' then Resolved (JObject [(''embedding'', JArray [])])
       else if prompt req = ''d'' then Resolved (JObject [(''error'', JString ''model not found'')])
       else Rejected (AxiosError (Some 500) JUndefined ''Request failed with status code 500'')),
      prompts @ [prompt req])"

definition example_stringify :: "jsvalue \<Rightarrow> string" where
  "example_stringify v = ''{}''"

definition example_service :: OllamaEmbeddingService where
  "example_service =
     new_OllamaEmbeddingService
       \<lparr> config_apiEndpoint = None, config_model = None, config_dimensions = None,
         config_version = None \<rparr>"

text \<open>Constructors for the two classes that are parameters, a constructor that always
  throws, and one whose service throws when asked for its model info.\<close>

definition example_info :: "string \<Rightarrow> number \<Rightarrow> nat \<Rightarrow> error + EmbeddingModelInfo" where
  "example_info n d k = Inr \<lparr> info_name = n, info_dimensions = d, info_version = ''1.0.0'' \<rparr>"

definition example_new_Default :: "number option \<Rightarrow> error + service" where
  "example_new_Default dims =
     Inr (OtherService ''DefaultEmbeddingService''
       (example_info ''memento-mcp-mock'' (or_default_number dims 1536)))"

definition example_new_OpenAI :: EmbeddingServiceProvider where
  "example_new_OpenAI config =
     Inr (OtherService ''OpenAIEmbeddingService''
       (example_info (or_default (cfg_model config) ''text-embedding-3-small'')
         (or_default_number (cfg_dimensions config) 1536)))"

definition failing_provider :: EmbeddingServiceProvider where
  "failing_provider config = Inl (Error ''constructor failed'')"

definition no_info :: "nat \<Rightarrow> error + EmbeddingModelInfo" where
  "no_info k = Inl (Error ''model info unavailable'')"

definition silent_provider :: EmbeddingServiceProvider where
  "silent_provider config = Inr (OtherService ''SilentService'' no_info)"

definition example_config :: "string option \<Rightarrow> EmbeddingServiceConfig" where
  "example_config name =
     \<lparr> provider = name, cfg_model = None, cfg_dimensions = None, apiKey = None,
       cfg_apiEndpoint = None \<rparr>"

text \<open>On a string of ASCII characters \<^verbatim>\<open>toLowerCase\<close> changes the 26 capitals and
  nothing else; the examples lowercase such strings only.\<close>

definition lower_char :: "char \<Rightarrow> char" where
  "lower_char c =
     (case map_of (zip ''ABCDEFGHIJKLMNOPQRSTUVWXYZ'' ''abcdefghijklmnopqrstuvwxyz'') c of
        Some l \<Rightarrow> l
      | None \<Rightarrow> c)"

definition ascii_toLowerCase :: "string \<Rightarrow> string" where
  "ascii_toLowerCase s = map lower_char s"

text \<open>The tables of a function through which no example reads or assigns a key.\<close>

definition unread_properties :: function_object where
  "unread_properties =
     \<lparr> inherited_get = (\<lambda>key. NotFound), inherited_set = (\<lambda>key. Stores) \<rparr>"

text \<open>The registry the module builds, with these constructors.\<close>

definition example_providers :: registry where
  "example_providers =
     \<lparr> own = [''default'' \<mapsto> default_provider example_new_Default,
              ''openai'' \<mapsto> openai_provider example_new_OpenAI,
              ''ollama'' \<mapsto> ollama_provider],
       proto = ObjectPrototype \<rparr>"

text \<open>Loggers: one that returns from every call, and one whose method \<^verbatim>\<open>error\<close>
  throws.\<close>

definition quiet_logger :: logger where
  "quiet_logger l message = None"

definition broken_logger :: logger where
  "broken_logger l message = (if l = LogError then Some (Error ''logger failed'') else None)"



section \<open>Normalization: lemmas\<close>

lemma sum_of_squares_zeros:
  "\<forall>x \<in> set vector. x = 0 \<Longrightarrow> sum_of_squares vector m = m"
  by (induction vector arbitrary: m) auto

lemma sum_of_squares_acc: "sum_of_squares vector m = m + sum_of_squares vector 0"
proof (induction vector arbitrary: m)
  case Nil
  show ?case by simp
next
  case (Cons x xs)
  have "sum_of_squares (x # xs) m = (m + x * x) + sum_of_squares xs 0"
    using Cons.IH [of "m + x * x"] by simp
  also have "\<dots> = m + (x * x + sum_of_squares xs 0)" by simp
  also have "x * x + sum_of_squares xs 0 = sum_of_squares (x # xs) 0"
    using Cons.IH [of "0 + x * x"] by simp
  finally show ?case .
qed

lemma sum_of_squares_sum: "sum_of_squares vector 0 = (\<Sum>x\<leftarrow>vector. x * x)"
proof (induction vector)
  case Nil
  show ?case by simp
next
  case (Cons x xs)
  then show ?case using sum_of_squares_acc [of xs "0 + x * x"] by simp
qed

lemma divide_components_map: "divide_components vector m = map (\<lambda>x. x / m) vector"
  by (induction vector) auto

lemma assign_first_zeros:
  "vector \<noteq> [] \<Longrightarrow> \<forall>x \<in> set vector. x = 0 \<Longrightarrow>
     assign_first vector 1 = 1 # replicate (length vector - 1) 0"
  by (cases vector) (auto simp: replicate_length_same [symmetric] intro!: replicate_eqI)

lemma sum_of_squares_pos:
  "\<exists>x \<in> set vector. x \<noteq> 0 \<Longrightarrow> 0 < sum_of_squares vector 0"
  unfolding sum_of_squares_sum
proof (induction vector)
  case Nil
  then show ?case by simp
next
  case (Cons a vector)
  have nn: "0 \<le> (\<Sum>x\<leftarrow>vector. x * x)" by (induction vector) auto
  show ?case
  proof (cases "a = 0")
    case True
    then show ?thesis using Cons by auto
  next
    case False
    then have "0 < a * a" by (auto simp: zero_less_mult_iff)
    then show ?thesis using nn by simp
  qed
qed

text \<open>
  In exact arithmetic a vector with a non-zero component is divided by its Euclidean
  norm: the result has norm 1, the length of the input and the signs of its components.
  This is a statement about real numbers; double arithmetic departs from it where a
  square underflows to 0 or overflows, as the section on the range of the doubles shows.
\<close>

lemma normalizeVector_exact_arithmetic:
  assumes "\<exists>x \<in> set vector. x \<noteq> 0"
  shows "normalizeVector vector = map (\<lambda>x. x / sqrt (\<Sum>x\<leftarrow>vector. x * x)) vector"
    and "sqrt (\<Sum>y\<leftarrow>normalizeVector vector. y * y) = 1"
    and "length (normalizeVector vector) = length vector"
    and "\<forall>i < length vector. sgn (normalizeVector vector ! i) = sgn (vector ! i)"
proof -
  let ?n = "sqrt (\<Sum>x\<leftarrow>vector. x * x)"
  have pos: "0 < ?n"
    using sum_of_squares_pos [OF assms] by (simp add: sum_of_squares_sum)
  show eq: "normalizeVector vector = map (\<lambda>x. x / ?n) vector"
    using pos by (simp add: normalizeVector_def Let_def sum_of_squares_sum divide_components_map)
  show "length (normalizeVector vector) = length vector"
    by (simp add: eq)
  show "\<forall>i < length vector. sgn (normalizeVector vector ! i) = sgn (vector ! i)"
    using pos by (simp add: eq sgn_divide)
  have "(\<Sum>y\<leftarrow>map (\<lambda>x. x / c) vector. y * y) = (\<Sum>x\<leftarrow>vector. x * x) / (c * c)" for c :: real
    by (induction vector) (auto simp: add_divide_distrib)
  then have "(\<Sum>y\<leftarrow>map (\<lambda>x. x / ?n) vector. y * y) = (\<Sum>x\<leftarrow>vector. x * x) / (?n * ?n)" .
  also have "?n * ?n = (\<Sum>x\<leftarrow>vector. x * x)"
    using pos by (simp add: less_eq_real_def)
  finally show "sqrt (\<Sum>y\<leftarrow>normalizeVector vector. y * y) = 1"
    using pos by (simp add: eq)
qed


section \<open>Normalization: the zero vector and the empty vector\<close>

text \<open>
  Claim C2, amended. For every all-zero vector with at least one component,
  \<^verbatim>\<open>_normalizeVector\<close> finds the magnitude 0, does not take the dividing branch, and
  sets the first component to 1: the result is 1 followed by zeros and has the length of
  the input.
\<close>

theorem normalizeVector_all_zero:
  assumes "vector \<noteq> []" and "\<forall>x \<in> set vector. x = 0"
  shows "\<not> sqrt (sum_of_squares vector 0) > 0
       \<and> normalizeVector vector = 1 # replicate (length vector - 1) 0
       \<and> length (normalizeVector vector) = length vector"
  using assms by (simp add: normalizeVector_def sum_of_squares_zeros assign_first_zeros)

theorem normalizeVector_all_zero_witness:
  "normalizeVector [0, 0, 0] = [1, 0, 0] \<and> length (normalizeVector [0, 0, 0]) = 3"
  using normalizeVector_all_zero [of "[0, 0, 0]"] by simp

text \<open>As stated for every all-zero vector, C2 fails on the vector without components:
  the result has one component, the input none.\<close>

theorem normalizeVector_all_zero_counterexample:
  "normalizeVector [] = [1] \<and> length (normalizeVector []) \<noteq> length ([] :: vector)"
  by (simp add: normalizeVector_def)


section \<open>The Ollama service: a single text\<close>

lemma generateEmbedding_requests:
  "generateEmbedding stringify post this t w = (r, steps, w') \<Longrightarrow>
     requests_of steps = [make_request this t]"
  by (auto simp: generateEmbedding_def generateEmbedding_try_def Let_def
      split: prod.splits outcome.splits if_splits sum.splits)

lemma generateEmbedding_normalizes_nonempty:
  "generateEmbedding stringify post this t w = (r, steps, w') \<Longrightarrow>
     Normalize v \<in> set steps \<Longrightarrow> v \<noteq> []"
  by (auto simp: generateEmbedding_def generateEmbedding_try_def Let_def
      split: prod.splits outcome.splits if_splits sum.splits)

lemma generateEmbedding_empty_array:
  assumes "post (make_request this t) w = (Resolved data, w')"
    and "get_embedding data = JArray []"
  shows "generateEmbedding stringify post this t w =
           (Inl (Error ''Error generating embedding: Invalid embedding returned from Ollama API''),
            [Post (make_request this t)], w')"
proof -
  have "truthy data"
    using assms(2) by (cases data) simp_all
  then show ?thesis
    using assms
    by (simp add: generateEmbedding_def generateEmbedding_try_def generateEmbedding_catch_def
        Let_def)
qed

text \<open>
  Claim C6. When the endpoint answers with a body that has no \<^verbatim>\<open>embedding\<close>
  field, or whose field is not an array, or is an array of length 0,
  \<^verbatim>\<open>generateEmbedding\<close> throws an error that names the invalid response: the message
  of one of the two checks, behind the prefix the \<^verbatim>\<open>catch\<close> block adds. The only
  step of the call is the request: nothing is normalized, and no vector is returned.
\<close>

theorem generateEmbedding_invalid_response:
  assumes "post (make_request this t) w = (Resolved data, w')"
    and "get_embedding data = JUndefined \<or> \<not> isArray (get_embedding data)
           \<or> length (elements (get_embedding data)) = 0"
  shows "generateEmbedding stringify post this t w =
           (Inl (Error (''Error generating embedding: '' @
                  (if \<not> truthy data \<or> \<not> truthy (get_embedding data)
                   then ''Invalid response from Ollama API - missing embedding data''
                   else ''Invalid embedding returned from Ollama API''))),
            [Post (make_request this t)], w')"
proof -
  have bad: "\<not> isArray (get_embedding data) \<or> elements (get_embedding data) = []"
    using assms(2) by auto
  show ?thesis
  proof (cases "\<not> truthy data \<or> \<not> truthy (get_embedding data)")
    case True
    then show ?thesis
      using assms(1)
      by (simp add: generateEmbedding_def generateEmbedding_try_def
          generateEmbedding_catch_def Let_def)
  next
    case False
    then show ?thesis
      using assms(1) bad
      by (simp add: generateEmbedding_def generateEmbedding_try_def
          generateEmbedding_catch_def Let_def)
  qed
qed

theorem generateEmbedding_invalid_response_witness:
  "generateEmbedding example_stringify example_post example_service ''d'' [] =
     (Inl (Error ''Error generating embedding: Invalid response from Ollama API - missing embedding data''),
      [Post (make_request example_service ''d'')], [''d''])"
proof -
  have p: "example_post (make_request example_service ''d'') [] =
             (Resolved (JObject [(''error'', JString ''model not found'')]), [''d''])"
    by (simp add: example_post_def make_request_def)
  show ?thesis
    using p generateEmbedding_invalid_response [where post = example_post
        and this = example_service and t = "''d''" and w = "[]" and w' = "[''d'']"
        and data = "JObject [(''error'', JString ''model not found'')]"
        and stringify = example_stringify]
    by simp
qed

text \<open>
  Claim C7. When the endpoint answers with the body \<^verbatim>\<open>{ "embedding": [3, 4] }\<close>,
  \<^verbatim>\<open>generateEmbedding\<close> returns \<^verbatim>\<open>[0.6, 0.8]\<close>: the vector divided by its norm 5.
\<close>

theorem generateEmbedding_3_4:
  assumes "post (make_request this t) w =
             (Resolved (JObject [(''embedding'', JArray [3, 4])]), w')"
  shows "generateEmbedding stringify post this t w =
           (Inr [0.6, 0.8], [Post (make_request this t), Normalize [3, 4]], w')"
  using assms
  by (simp add: generateEmbedding_def generateEmbedding_try_def Let_def normalizeVector_def)

theorem generateEmbedding_3_4_witness:
  "generateEmbedding example_stringify example_post example_service ''a'' [] =
     (Inr [0.6, 0.8], [Post (make_request example_service ''a''), Normalize [3, 4]], [''a''])"
proof -
  have p: "example_post (make_request example_service ''a'') [] =
             (Resolved (JObject [(''embedding'', JArray [3, 4])]), [''a''])"
    by (simp add: example_post_def make_request_def)
  show ?thesis
    using p generateEmbedding_3_4 [where post = example_post and this = example_service
        and t = "''a''" and w = "[]" and w' = "[''a'']" and stringify = example_stringify]
    by simp
qed

text \<open>
  Claim C10. On the vector without components \<^verbatim>\<open>_normalizeVector\<close> computes the
  magnitude 0, takes the branch for a zero magnitude and assigns 1 at index 0: the result
  has one component, so the length is not kept. \<^verbatim>\<open>generateEmbedding\<close> never hands it
  an empty vector: an empty \<^verbatim>\<open>embedding\<close> array is rejected with an error before
  the normalization.
\<close>

theorem normalizeVector_empty:
  "sqrt (sum_of_squares [] 0) = 0
   \<and> normalizeVector [] = [1]
   \<and> length (normalizeVector []) \<noteq> length ([] :: vector)
   \<and> (generateEmbedding stringify post this t w = (r, steps, w') \<longrightarrow>
        Normalize v \<in> set steps \<longrightarrow> v \<noteq> [])
   \<and> (post (make_request this t) w = (Resolved data, w') \<longrightarrow>
        get_embedding data = JArray [] \<longrightarrow>
        generateEmbedding stringify post this t w =
          (Inl (Error ''Error generating embedding: Invalid embedding returned from Ollama API''),
           [Post (make_request this t)], w'))"
  using generateEmbedding_normalizes_nonempty [of stringify post this t w r steps w' v]
    generateEmbedding_empty_array [of post this t w data w' stringify]
  by (simp add: normalizeVector_def)

theorem normalizeVector_empty_witness:
  "normalizeVector [] = [1]
   \<and> generateEmbedding example_stringify example_post example_service ''c'' [] =
       (Inl (Error ''Error generating embedding: Invalid embedding returned from Ollama API''),
        [Post (make_request example_service ''c'')], [''c''])"
proof -
  have p: "example_post (make_request example_service ''c'') [] =
             (Resolved (JObject [(''embedding'', JArray [])]), [''c''])"
    by (simp add: example_post_def make_request_def)
  show ?thesis
    using p normalizeVector_empty [where post = example_post and this = example_service
        and t = "''c''" and w = "[]" and w' = "[''c'']" and stringify = example_stringify
        and data = "JObject [(''embedding'', JArray [])]"]
    by simp
qed


section \<open>The Ollama service: a list of texts\<close>

text \<open>The accumulators of the loop only prefix what the loop adds.\<close>

lemma generateEmbeddings_loop_acc:
  "generateEmbeddings_loop stringify post this texts embeddings trace w =
     (case generateEmbeddings_loop stringify post this texts [] [] w of
        (Inl e, steps, w') \<Rightarrow> (Inl e, trace @ steps, w')
      | (Inr vs, steps, w') \<Rightarrow> (Inr (embeddings @ vs), trace @ steps, w'))"
proof (induction texts arbitrary: embeddings trace w)
  case Nil
  show ?case by simp
next
  case (Cons t texts)
  obtain r steps w1 where g: "generateEmbedding stringify post this t w = (r, steps, w1)"
    by (cases "generateEmbedding stringify post this t w") auto
  show ?case
  proof (cases r)
    case (Inl e)
    then show ?thesis using g by simp
  next
    case (Inr v)
    show ?thesis
      using g Inr Cons.IH [of "embeddings @ [v]" "trace @ steps" w1] Cons.IH [of "[v]" "steps" w1]
      by (simp split: prod.splits sum.splits)
  qed
qed

lemma generateEmbeddings_Nil: "generateEmbeddings stringify post this [] w = (Inr [], [], w)"
  by (simp add: generateEmbeddings_def)

lemma generateEmbeddings_Cons:
  "generateEmbeddings stringify post this (t # texts) w =
     (case generateEmbedding stringify post this t w of
        (Inl e, steps, w') \<Rightarrow> (Inl e, steps, w')
      | (Inr v, steps, w') \<Rightarrow>
          (case generateEmbeddings stringify post this texts w' of
             (Inl e, steps', w'') \<Rightarrow> (Inl e, steps @ steps', w'')
           | (Inr vs, steps', w'') \<Rightarrow> (Inr (v # vs), steps @ steps', w'')))"
proof -
  obtain r steps w1 where g: "generateEmbedding stringify post this t w = (r, steps, w1)"
    by (cases "generateEmbedding stringify post this t w") auto
  show ?thesis
  proof (cases r)
    case (Inl e)
    then show ?thesis using g by (simp add: generateEmbeddings_def)
  next
    case (Inr v)
    then show ?thesis
      using g generateEmbeddings_loop_acc [of stringify post this texts "[v]" steps w1]
      by (simp add: generateEmbeddings_def split: prod.splits sum.splits)
  qed
qed

lemma requests_of_append: "requests_of (xs @ ys) = requests_of xs @ requests_of ys"
  by (induction xs rule: requests_of.induct) auto

lemma generateEmbeddings_success:
  "generateEmbeddings stringify post this texts w = (Inr vs, steps, w') \<Longrightarrow>
     length vs = length texts \<and> requests_of steps = map (make_request this) texts"
proof (induction texts arbitrary: w vs steps w')
  case Nil
  then show ?case by (simp add: generateEmbeddings_Nil)
next
  case (Cons t texts)
  obtain r s1 w1 where g: "generateEmbedding stringify post this t w = (r, s1, w1)"
    by (cases "generateEmbedding stringify post this t w") auto
  obtain r2 s2 w2 where h: "generateEmbeddings stringify post this texts w1 = (r2, s2, w2)"
    by (cases "generateEmbeddings stringify post this texts w1") auto
  from Cons.prems g h obtain v vs' where
    r: "r = Inr v" "r2 = Inr vs'" "vs = v # vs'" "steps = s1 @ s2"
    by (auto simp: generateEmbeddings_Cons split: sum.splits)
  from Cons.IH [of w1 vs' s2 w2] h r
  have "length vs' = length texts \<and> requests_of s2 = map (make_request this) texts"
    by simp
  then show ?case
    using r generateEmbedding_requests [OF g] by (simp add: requests_of_append)
qed

lemma generateEmbeddings_failure:
  "generateEmbeddings stringify post this texts w = (Inl e, steps, w') \<Longrightarrow>
     \<exists>before t after. texts = before @ t # after \<and>
        requests_of steps = map (make_request this) (before @ [t])"
proof (induction texts arbitrary: w steps w')
  case Nil
  then show ?case by (simp add: generateEmbeddings_Nil)
next
  case (Cons t texts)
  obtain r s1 w1 where g: "generateEmbedding stringify post this t w = (r, s1, w1)"
    by (cases "generateEmbedding stringify post this t w") auto
  obtain r2 s2 w2 where h: "generateEmbeddings stringify post this texts w1 = (r2, s2, w2)"
    by (cases "generateEmbeddings stringify post this texts w1") auto
  show ?case
  proof (cases r)
    case (Inl e1)
    then have "steps = s1"
      using Cons.prems g by (simp add: generateEmbeddings_Cons)
    then have "t # texts = [] @ t # texts \<and>
        requests_of steps = map (make_request this) ([] @ [t])"
      using generateEmbedding_requests [OF g] by simp
    then show ?thesis by blast
  next
    case (Inr v)
    then have r: "r2 = Inl e" "steps = s1 @ s2"
      using Cons.prems g h by (auto simp: generateEmbeddings_Cons split: sum.splits)
    from Cons.IH [of w1 s2 w2] h r obtain before u after where
      "texts = before @ u # after" "requests_of s2 = map (make_request this) (before @ [u])"
      by auto
    then have "t # texts = (t # before) @ u # after \<and>
        requests_of steps = map (make_request this) ((t # before) @ [u])"
      using r generateEmbedding_requests [OF g] by (simp add: requests_of_append)
    then show ?thesis by blast
  qed
qed

text \<open>
  Claim C4. \<^verbatim>\<open>generateEmbeddings\<close> handles the texts one at a time and in their
  order, each by a call of \<^verbatim>\<open>generateEmbedding\<close> made in the state the previous
  call left: on no texts it returns no vectors; on \<open>t # texts\<close> it calls
  \<^verbatim>\<open>generateEmbedding\<close> on \<open>t\<close>, and when that call throws, throws the same error with
  nothing done for the remaining texts, and otherwise goes on with them and puts the vector
  for \<open>t\<close> in front of theirs. So a call that returns has issued one request for each
  text, in the order of the texts, and returns as many vectors as there are texts; a call
  that throws has issued the requests up to the text that failed and none after it, and
  returns no vector.
\<close>

theorem generateEmbeddings_sequential:
  "generateEmbeddings stringify post this [] w = (Inr [], [], w)
   \<and> generateEmbeddings stringify post this (t # texts) w =
       (case generateEmbedding stringify post this t w of
          (Inl e, steps, w') \<Rightarrow> (Inl e, steps, w')
        | (Inr v, steps, w') \<Rightarrow>
            (case generateEmbeddings stringify post this texts w' of
               (Inl e, steps', w'') \<Rightarrow> (Inl e, steps @ steps', w'')
             | (Inr vs, steps', w'') \<Rightarrow> (Inr (v # vs), steps @ steps', w'')))
   \<and> (generateEmbeddings stringify post this texts w = (Inr vs, steps, w') \<longrightarrow>
        length vs = length texts \<and> requests_of steps = map (make_request this) texts)
   \<and> (generateEmbeddings stringify post this texts w = (Inl e, steps, w') \<longrightarrow>
        (\<exists>before u after. texts = before @ u # after \<and>
           requests_of steps = map (make_request this) (before @ [u])))"
  using generateEmbeddings_Nil [of stringify post this w]
    generateEmbeddings_Cons [of stringify post this t texts w]
    generateEmbeddings_success [of stringify post this texts w vs steps w']
    generateEmbeddings_failure [of stringify post this texts w e steps w']
  by blast

lemma example_generateEmbedding_a:
  "generateEmbedding example_stringify example_post example_service ''a'' w =
     (Inr [0.6, 0.8], [Post (make_request example_service ''a''), Normalize [3, 4]], w @ [''a''])"
  by (simp add: generateEmbedding_def generateEmbedding_try_def Let_def normalizeVector_def
      example_post_def make_request_def)

lemma example_generateEmbedding_b:
  "generateEmbedding example_stringify example_post example_service ''b'' w =
     (Inr [1, 0], [Post (make_request example_service ''b''), Normalize [0, 0]], w @ [''b''])"
  by (simp add: generateEmbedding_def generateEmbedding_try_def Let_def normalizeVector_def
      example_post_def make_request_def)

lemma example_generateEmbedding_d:
  "generateEmbedding example_stringify example_post example_service ''d'' w =
     (Inl (Error ''Error generating embedding: Invalid response from Ollama API - missing embedding data''),
      [Post (make_request example_service ''d'')], w @ [''d''])"
  by (simp add: generateEmbedding_def generateEmbedding_try_def generateEmbedding_catch_def
      Let_def example_post_def make_request_def)

text \<open>The texts \<open>b, a\<close> give the two vectors in this order, after the requests for
  \<open>b\<close> and \<open>a\<close>; the texts \<open>a, d, b\<close> fail at \<open>d\<close> with its error, and \<open>b\<close> is never
  requested.\<close>

theorem generateEmbeddings_sequential_witness:
  "generateEmbeddings example_stringify example_post example_service [''b'', ''a''] [] =
     (Inr [[1, 0], [0.6, 0.8]],
      [Post (make_request example_service ''b''), Normalize [0, 0],
       Post (make_request example_service ''a''), Normalize [3, 4]],
      [''b'', ''a''])
   \<and> length [[1, 0], [0.6, 0.8 :: number]] = length [''b'', ''a'']
   \<and> requests_of
        [Post (make_request example_service ''b''), Normalize [0, 0],
         Post (make_request example_service ''a''), Normalize [3, 4]] =
       map (make_request example_service) [''b'', ''a'']
   \<and> generateEmbeddings example_stringify example_post example_service [''a'', ''d'', ''b''] [] =
     (Inl (Error ''Error generating embedding: Invalid response from Ollama API - missing embedding data''),
      [Post (make_request example_service ''a''), Normalize [3, 4],
       Post (make_request example_service ''d'')],
      [''a'', ''d''])
   \<and> (\<exists>before u after. [''a'', ''d'', ''b''] = before @ u # after \<and>
        requests_of
          [Post (make_request example_service ''a''), Normalize [3, 4],
           Post (make_request example_service ''d'')] =
        map (make_request example_service) (before @ [u]))"
proof -
  note all = generateEmbeddings_sequential [of example_stringify example_post example_service]
  note stop = all [THEN conjunct1]
  note step = all [THEN conjunct2, THEN conjunct1]
  note returned = all [THEN conjunct2, THEN conjunct2, THEN conjunct1, rule_format]
  note threw = all [THEN conjunct2, THEN conjunct2, THEN conjunct2, rule_format]
  have ba: "generateEmbeddings example_stringify example_post example_service [''b'', ''a''] [] =
     (Inr [[1, 0], [0.6, 0.8]],
      [Post (make_request example_service ''b''), Normalize [0, 0],
       Post (make_request example_service ''a''), Normalize [3, 4]],
      [''b'', ''a''])"
    by (simp add: step stop example_generateEmbedding_a example_generateEmbedding_b)
  have adb: "generateEmbeddings example_stringify example_post example_service [''a'', ''d'', ''b''] [] =
     (Inl (Error ''Error generating embedding: Invalid response from Ollama API - missing embedding data''),
      [Post (make_request example_service ''a''), Normalize [3, 4],
       Post (make_request example_service ''d'')],
      [''a'', ''d''])"
    by (simp add: step stop example_generateEmbedding_a example_generateEmbedding_d)
  show ?thesis
    using ba adb returned [OF ba] threw [OF adb] by simp
qed


section \<open>Double arithmetic: rounding\<close>

text \<open>Bounds on the rounding: it stays between the integers next to its argument, it
  overflows from \<open>2\<close> to the power \<open>1024\<close> on, it underflows to zero up to
  \<open>2\<close> to the power \<open>-1075\<close>, and between these it stays within a factor 2 of
  its argument.\<close>

lemma round_half_even_floor: "\<lfloor>y\<rfloor> \<le> round_half_even y \<and> round_half_even y \<le> \<lfloor>y\<rfloor> + 1"
  by (simp add: round_half_even_def Let_def)

lemma round_half_even_ge: "of_int N \<le> y \<Longrightarrow> N \<le> round_half_even y"
proof -
  assume "of_int N \<le> y"
  then have "N \<le> \<lfloor>y\<rfloor>" by (simp add: le_floor_iff)
  then show ?thesis using round_half_even_floor [of y] by linarith
qed

lemma round_half_even_upper: "0 \<le> y \<Longrightarrow> of_int (round_half_even y) \<le> 2 * y"
proof -
  assume y: "0 \<le> y"
  show ?thesis
  proof (cases "y < 1 / 2")
    case True
    then have "\<lfloor>y\<rfloor> = 0" using y by (simp add: floor_eq_iff)
    then have "round_half_even y = 0" using True by (simp add: round_half_even_def)
    then show ?thesis using y by simp
  next
    case False
    have m: "of_int (round_half_even y) \<le> of_int \<lfloor>y\<rfloor> + (1::real)"
      using round_half_even_floor [of y] by (metis of_int_1 of_int_add of_int_le_iff)
    show ?thesis
    proof (cases "y < 1")
      case True
      then have "\<lfloor>y\<rfloor> = 0" using y by (simp add: floor_eq_iff)
      then show ?thesis using m False by simp
    next
      case False
      moreover have "of_int \<lfloor>y\<rfloor> \<le> y" by simp
      ultimately show ?thesis using m by linarith
    qed
  qed
qed

lemma round_half_even_lower: "1 \<le> y \<Longrightarrow> y / 2 \<le> of_int (round_half_even y)"
proof -
  assume y: "1 \<le> y"
  have "of_int \<lfloor>y\<rfloor> \<le> (of_int (round_half_even y) :: real)"
    using round_half_even_floor [of y] by simp
  moreover have "y - 1 < of_int \<lfloor>y\<rfloor>" by linarith
  moreover have "(1::real) \<le> of_int \<lfloor>y\<rfloor>" using y by (simp add: le_floor_iff)
  ultimately show ?thesis by linarith
qed

lemma round_half_even_small: "0 \<le> y \<Longrightarrow> y \<le> 1 / 2 \<Longrightarrow> round_half_even y = 0"
proof -
  assume y: "0 \<le> y" "y \<le> 1 / 2"
  then have "\<lfloor>y\<rfloor> = 0" by (simp add: floor_eq_iff)
  then show ?thesis using y by (simp add: round_half_even_def)
qed

lemma quantum_pos: "0 < quantum r"
  by (simp add: quantum_def)

lemma powr_floor_log_le: "0 < r \<Longrightarrow> 2 powr of_int \<lfloor>log 2 r\<rfloor> \<le> r"
proof -
  assume r: "0 < r"
  have "2 powr of_int \<lfloor>log 2 r\<rfloor> \<le> 2 powr log 2 r"
    by (simp add: powr_le_cancel_iff)
  then show ?thesis using r by simp
qed

lemma quantum_le: "1 \<le> r \<Longrightarrow> quantum r \<le> r"
proof -
  assume r: "1 \<le> r"
  have L: "0 \<le> \<lfloor>log 2 r\<rfloor>" using r by simp
  then have "max (\<lfloor>log 2 r\<rfloor> - 52) (- 1074) \<le> \<lfloor>log 2 r\<rfloor>" by simp
  then have "quantum r \<le> 2 powr of_int \<lfloor>log 2 r\<rfloor>"
    unfolding quantum_def by (simp only: powr_le_cancel_iff one_less_numeral_iff semiring_norm of_int_le_iff)
  then show ?thesis using powr_floor_log_le [of r] r by linarith
qed

lemma rounded_upper:
  assumes "0 < r" and "2 * r < 2 ^ 1024"
  shows "\<exists>v. rounded s r = Finite s v \<and> 0 \<le> v \<and> v \<le> 2 * r"
proof -
  let ?q = "quantum r"
  let ?v = "of_int (round_half_even (r / ?q)) * ?q"
  have q: "0 < ?q" by (rule quantum_pos)
  have y: "0 \<le> r / ?q" using assms(1) q by simp
  have "of_int (round_half_even (r / ?q)) \<le> 2 * (r / ?q)"
    by (rule round_half_even_upper [OF y])
  then have "?v \<le> 2 * (r / ?q) * ?q"
    using q by (simp only: mult_le_cancel_right_pos)
  then have up: "?v \<le> 2 * r" using q by simp
  have "0 \<le> round_half_even (r / ?q)"
    using round_half_even_ge [of 0 "r / ?q"] y by simp
  then have nn: "0 \<le> ?v" using q by simp
  have "\<not> ?v \<ge> 2 ^ 1024" using up assms(2) by linarith
  then have "rounded s r = Finite s ?v"
    using assms(1) by (simp add: rounded_def Let_def)
  then show ?thesis using up nn by blast
qed

lemma rounded_lower:
  assumes "1 \<le> r" and "2 * r < 2 ^ 1024"
  shows "\<exists>v. rounded s r = Finite s v \<and> r / 2 \<le> v"
proof -
  let ?q = "quantum r"
  let ?v = "of_int (round_half_even (r / ?q)) * ?q"
  have q: "0 < ?q" by (rule quantum_pos)
  have y: "1 \<le> r / ?q" using quantum_le [OF assms(1)] q by simp
  have "r / ?q / 2 \<le> of_int (round_half_even (r / ?q))"
    by (rule round_half_even_lower [OF y])
  then have "r / ?q / 2 * ?q \<le> ?v"
    using q by (simp only: mult_le_cancel_right_pos)
  then have low: "r / 2 \<le> ?v" using q by simp
  obtain v where v: "rounded s r = Finite s v" "v \<le> 2 * r"
    using rounded_upper [of r s] assms by auto
  have "rounded s r = Finite s ?v"
    using v(1) assms(1) by (simp add: rounded_def Let_def split: if_splits)
  then show ?thesis using low by blast
qed

lemma rounded_underflow:
  assumes "0 \<le> r" and "r \<le> 1 / 2 ^ 1075"
  shows "rounded s r = Finite s 0"
proof (cases "r = 0")
  case True
  then show ?thesis by (simp add: rounded_def)
next
  case False
  then have r: "0 < r" using assms(1) by simp
  have "r \<le> 2 powr (- 1075)"
    using assms(2) by (simp add: powr_minus powr_realpow [symmetric] divide_simps)
  then have "log 2 r \<le> - 1075"
    using r by (simp add: log_le_iff)
  then have "\<lfloor>log 2 r\<rfloor> \<le> - 1075"
    by (simp add: floor_le_iff)
  moreover have "L \<le> - 1075 \<Longrightarrow> max (L - 52) (- 1074) = - 1074" for L :: int
    by simp
  ultimately have "max (\<lfloor>log 2 r\<rfloor> - 52) (- 1074) = - 1074" by blast
  then have q: "quantum r = 2 powr (- 1074)"
    by (simp add: quantum_def)
  have "r / quantum r = r * 2 ^ 1074"
    unfolding q by (simp add: powr_minus powr_realpow [symmetric] divide_simps)
  also have "\<dots> \<le> 1 / 2 ^ 1075 * 2 ^ 1074"
    using assms(2) by (simp only: mult_le_cancel_right_pos zero_less_power zero_less_numeral)
  also have "\<dots> = 1 / 2" by simp
  finally have "r / quantum r \<le> 1 / 2" .
  moreover have "0 \<le> r / quantum r" using r quantum_pos [of r] by simp
  ultimately have "round_half_even (r / quantum r) = 0"
    by (rule round_half_even_small [rotated])
  then show ?thesis using False by (simp add: rounded_def Let_def)
qed

lemma rounded_overflow:
  assumes "2 ^ 1024 \<le> r"
  shows "rounded s r = Infinity s"
proof -
  have "(0::real) < 2 ^ 1024" by simp
  then have r: "0 < r" using assms by linarith
  let ?L = "\<lfloor>log 2 r\<rfloor>"
  have "(2::real) powr 1024 \<le> r" using assms by (simp add: powr_realpow [symmetric])
  then have "1024 \<le> log 2 r" using r by (simp add: le_log_iff)
  then have L: "1024 \<le> ?L" by (simp add: le_floor_iff)
  note L
  moreover have "1024 \<le> K \<Longrightarrow> max (K - 52) (- 1074) = K - 52" for K :: int
    by simp
  ultimately have "max (?L - 52) (- 1074) = ?L - 52" by blast
  then have q: "quantum r = 2 powr of_int (?L - 52)"
    by (simp only: quantum_def)
  have split: "2 powr of_int ?L = 2 ^ 52 * quantum r"
    unfolding q by (simp add: powr_diff powr_realpow [symmetric])
  have "2 ^ 52 * quantum r \<le> r"
    using powr_floor_log_le [OF r] split by simp
  then have "of_int (2 ^ 52) \<le> r / quantum r"
    using quantum_pos [of r] by (simp add: pos_le_divide_eq)
  then have "2 ^ 52 \<le> round_half_even (r / quantum r)"
    by (rule round_half_even_ge)
  then have "(2::real) ^ 52 \<le> of_int (round_half_even (r / quantum r))"
    by (metis of_int_le_iff of_int_numeral of_int_power)
  then have "2 ^ 52 * quantum r \<le> of_int (round_half_even (r / quantum r)) * quantum r"
    using quantum_pos [of r] by (simp only: mult_le_cancel_right_pos)
  moreover have "(2::real) ^ 1024 \<le> 2 powr of_int ?L"
  proof -
    have "(2::real) powr of_int 1024 \<le> 2 powr of_int ?L"
      using L by (simp only: powr_le_cancel_iff one_less_numeral_iff semiring_norm of_int_le_iff)
    moreover have "(2::real) powr of_int 1024 = 2 ^ 1024"
      using powr_realpow [of "2::real" 1024] by simp
    ultimately show ?thesis by (simp only:)
  qed
  ultimately have "2 ^ 1024 \<le> of_int (round_half_even (r / quantum r)) * quantum r"
    using split by linarith
  then show ?thesis using r by (simp add: rounded_def Let_def)
qed

lemma quantum_le_normal: "1 / 2 ^ 1074 \<le> r \<Longrightarrow> quantum r \<le> r"
proof -
  assume a: "1 / 2 ^ 1074 \<le> r"
  moreover have "(0::real) < 1 / 2 ^ 1074" by simp
  ultimately have r: "0 < r" by linarith
  have "(2::real) powr (- 1074) = 1 / 2 ^ 1074"
    using powr_realpow [of "2::real" 1074] by (simp add: powr_minus divide_simps)
  then have "(2::real) powr (- 1074) \<le> r" using a by simp
  then have "- 1074 \<le> log 2 r" using r by (simp add: le_log_iff)
  then have L: "- 1074 \<le> \<lfloor>log 2 r\<rfloor>" by (simp add: le_floor_iff)
  moreover have "- 1074 \<le> K \<Longrightarrow> max (K - 52) (- 1074) \<le> K" for K :: int
    by simp
  ultimately have "max (\<lfloor>log 2 r\<rfloor> - 52) (- 1074) \<le> \<lfloor>log 2 r\<rfloor>" by blast
  then have "quantum r \<le> 2 powr of_int \<lfloor>log 2 r\<rfloor>"
    unfolding quantum_def
    by (simp only: powr_le_cancel_iff one_less_numeral_iff semiring_norm of_int_le_iff)
  then show ?thesis using powr_floor_log_le [OF r] by linarith
qed

lemma rounded_bounds:
  assumes "1 / 2 ^ 1074 \<le> r" and "2 * r < 2 ^ 1024"
  shows "\<exists>v. rounded s r = Finite s v \<and> r / 2 \<le> v \<and> v \<le> 2 * r"
proof -
  have "(0::real) < 1 / 2 ^ 1074" by simp
  then have r: "0 < r" using assms(1) by linarith
  let ?q = "quantum r"
  let ?v = "of_int (round_half_even (r / ?q)) * ?q"
  have q: "0 < ?q" by (rule quantum_pos)
  have y: "1 \<le> r / ?q" using quantum_le_normal [OF assms(1)] q by simp
  have "r / ?q / 2 \<le> of_int (round_half_even (r / ?q))"
    by (rule round_half_even_lower [OF y])
  then have "r / ?q / 2 * ?q \<le> ?v"
    using q by (simp only: mult_le_cancel_right_pos)
  then have low: "r / 2 \<le> ?v" using q by simp
  obtain v where v: "rounded s r = Finite s v" "v \<le> 2 * r"
    using rounded_upper [OF r assms(2), of s] by auto
  have "rounded s r = Finite s ?v"
    using v(1) r by (simp add: rounded_def Let_def split: if_splits)
  then show ?thesis using low v by auto
qed

lemma big: "(1::real) / 2 ^ 1074 \<le> 10 ^ 200" "2 * (10::real) ^ 200 < 2 ^ 1024"
  "(2::real) ^ 512 \<le> 10 ^ 200 / 2"
  by simp_all

lemma small: "(1::real) / 2 ^ 1074 \<le> 1 / 10 ^ 200" "2 * (1 / (10::real) ^ 200) < 2 ^ 1024"
  "(2 * (1 / (10::real) ^ 200)) * (2 * (1 / 10 ^ 200)) \<le> 1 / 2 ^ 1075"
  by (simp_all add: divide_simps)


section \<open>Normalization out of the range of the doubles\<close>

lemma double_literal_1e200:
  "\<exists>v. double_literal (10 ^ 200) = Finite False v \<and> 2 ^ 512 \<le> v"
proof -
  obtain v where "rounded False (10 ^ 200) = Finite False v" "10 ^ 200 / 2 \<le> v"
    using rounded_bounds [OF big(1) big(2), of False] by auto
  then show ?thesis using big(3) by (auto simp: double_literal_def)
qed

lemma double_literal_1em200:
  "\<exists>v. double_literal (1 / 10 ^ 200) = Finite False v \<and> 0 < v \<and> v * v \<le> 1 / 2 ^ 1075"
proof -
  obtain v where v: "rounded False (1 / 10 ^ 200) = Finite False v"
      "1 / 10 ^ 200 / 2 \<le> v" "v \<le> 2 * (1 / 10 ^ 200)"
    using rounded_bounds [OF small(1) small(2), of False] by auto
  have "(0::real) < 1 / 10 ^ 200 / 2" by simp
  then have pos: "0 < v" using v(2) by linarith
  have "v * v \<le> (2 * (1 / 10 ^ 200)) * (2 * (1 / 10 ^ 200))"
    using v(3) pos by (intro mult_mono) simp_all
  then have "v * v \<le> 1 / 2 ^ 1075" using small(3) by linarith
  then show ?thesis using v(1) pos by (auto simp: double_literal_def)
qed

lemma normalize_overflow:
  assumes "2 ^ 512 \<le> v"
  shows "normalizeVector_double [Finite s v] = [Finite s 0]"
proof -
  have "(2::real) ^ 512 * 2 ^ 512 \<le> v * v"
    using assms by (intro mult_mono) simp_all
  then have "2 ^ 1024 \<le> v * v" by simp
  then have sq: "rounded False (v * v) = Infinity False" by (rule rounded_overflow)
  then show ?thesis by (simp add: normalizeVector_double_def)
qed

lemma normalize_underflow:
  assumes "0 < v" and "v * v \<le> 1 / 2 ^ 1075"
  shows "normalizeVector_double [Finite False v, Finite False v] = [Finite False 1, Finite False v]"
proof -
  have sq: "rounded False (v * v) = Finite False 0"
    using assms by (intro rounded_underflow) simp_all
  then show ?thesis by (simp add: normalizeVector_double_def)
qed

text \<open>
  Claim C1 fails on the code. The doubles \<^verbatim>\<open>1e200\<close> and \<^verbatim>\<open>1e-200\<close> are finite
  and not zero. On the vector \<^verbatim>\<open>[1e200]\<close> the square overflows, the magnitude is
  \<^verbatim>\<open>Infinity\<close>, and the quotient is 0: the result \<^verbatim>\<open>[0]\<close> has the norm 0, not
  1. On \<^verbatim>\<open>[1e-200, 1e-200]\<close> both squares underflow to 0, the magnitude is 0, and
  the branch for the zero vector is taken: the result \<^verbatim>\<open>[1, 1e-200]\<close> is not the
  input divided by its norm, and its components are no longer in proportion.
\<close>

theorem normalizeVector_double_out_of_range:
  "(\<exists>v>0. double_literal (10 ^ 200) = Finite False v)
   \<and> normalizeVector_double [double_literal (10 ^ 200)] = [Finite False 0]
   \<and> (\<exists>v>0. double_literal (1 / 10 ^ 200) = Finite False v)
   \<and> normalizeVector_double [double_literal (1 / 10 ^ 200), double_literal (1 / 10 ^ 200)] =
       [Finite False 1, double_literal (1 / 10 ^ 200)]"
proof -
  obtain v where v: "double_literal (10 ^ 200) = Finite False v" "2 ^ 512 \<le> v"
    using double_literal_1e200 by blast
  have "(0::real) < 2 ^ 512" by simp
  then have vpos: "0 < v" using v(2) by linarith
  obtain w where w: "double_literal (1 / 10 ^ 200) = Finite False w" "0 < w"
      "w * w \<le> 1 / 2 ^ 1075"
    using double_literal_1em200 by blast
  show ?thesis
    using v(1) vpos w(1) w(2) normalize_overflow [OF v(2), of False]
      normalize_underflow [OF w(2) w(3)]
    by auto
qed

text \<open>In the range of claim C7 the doubles and the real numbers agree: integers
  below \<open>2\<close> to the power \<open>53\<close> are doubles, and on \<^verbatim>\<open>[3, 4]\<close> the routine
  on doubles returns the doubles that the literals \<^verbatim>\<open>0.6\<close> and \<^verbatim>\<open>0.8\<close>
  denote.\<close>

lemma round_half_even_of_int: "round_half_even (of_int k) = k"
  by (simp add: round_half_even_def)

lemma rounded_integer:
  assumes "1 \<le> n" and "n < 2 ^ 53"
  shows "rounded s (of_int n) = Finite s (of_int n)"
proof -
  let ?r = "of_int n :: real"
  let ?L = "\<lfloor>log 2 ?r\<rfloor>"
  have r: "1 \<le> ?r" using assms(1) by simp
  then have L0: "0 \<le> ?L" by simp
  have "?r < 2 ^ 53" using assms(2) by (metis of_int_less_iff of_int_numeral of_int_power)
  also have "(2::real) ^ 53 = 2 powr 53" using powr_realpow [of "2::real" 53] by simp
  finally have "log 2 ?r < 53" using r by (simp add: log_less_iff)
  then have "?L < 53" by (simp add: floor_less_iff)
  then have L1: "?L \<le> 52" by simp
  define d where "d = nat (52 - ?L)"
  have "0 \<le> K \<Longrightarrow> max (K - 52) (- 1074) = K - 52" for K :: int by simp
  then have "max (?L - 52) (- 1074) = ?L - 52" using L0 by blast
  then have "quantum ?r = 2 powr of_int (?L - 52)" by (simp only: quantum_def)
  also have "of_int (?L - 52) = - real d" using L1 by (simp add: d_def)
  also have "2 powr (- real d) = 1 / 2 ^ d"
    using powr_realpow [of "2::real" d] by (simp add: powr_minus divide_simps)
  finally have q: "quantum ?r = 1 / 2 ^ d" .
  have "?r / quantum ?r = of_int (n * 2 ^ d)" by (simp add: q)
  then have "round_half_even (?r / quantum ?r) = n * 2 ^ d"
    by (simp only: round_half_even_of_int)
  then have v: "of_int (round_half_even (?r / quantum ?r)) * quantum ?r = ?r"
    by (simp add: q)
  have "?r < 2 ^ 1024"
    using \<open>?r < 2 ^ 53\<close> power_strict_increasing [of 53 1024 "2::real"] by simp
  then show ?thesis using r v by (simp add: rounded_def Let_def)
qed

lemma rounded_small_integers:
  "rounded False 3 = Finite False 3" "rounded False 4 = Finite False 4"
  "rounded False 5 = Finite False 5" "rounded False 9 = Finite False 9"
  "rounded False 16 = Finite False 16" "rounded False 25 = Finite False 25"
  using rounded_integer [of 3 False] rounded_integer [of 4 False] rounded_integer [of 5 False]
    rounded_integer [of 9 False] rounded_integer [of 16 False] rounded_integer [of 25 False]
  by simp_all

lemma normalizeVector_double_3_4:
  "normalizeVector_double [double_literal 3, double_literal 4] =
     [double_literal 0.6, double_literal 0.8]"
  by (simp add: normalizeVector_double_def double_literal_def rounded_small_integers)


section \<open>The factory: resolving a provider name\<close>

lemma resolve_name_Some:
  "provider config = Some m \<Longrightarrow> m \<noteq> [] \<Longrightarrow> resolve_name toLowerCase config = toLowerCase m"
  by (simp add: resolve_name_def)

lemma resolve_name_default:
  "provider (config :: EmbeddingServiceConfig) = Some [] \<or> provider config = None \<Longrightarrow>
     resolve_name toLowerCase config = toLowerCase ''default''"
  by (auto simp: resolve_name_def)

lemma createService_Registered:
  assumes "providers_get providers (resolve_name toLowerCase config) = Registered f"
  shows "createService toLowerCase providers config =
           (case f config of
              Inl e \<Rightarrow> (Inl e, [Invoked (resolve_name toLowerCase config) config])
            | Inr service \<Rightarrow>
                (case getModelInfo service 0 of
                   Inl e \<Rightarrow> (Inl e, [Invoked (resolve_name toLowerCase config) config])
                 | Inr info \<Rightarrow> (Inr service, [Invoked (resolve_name toLowerCase config) config])))"
  using assms by (simp add: createService_def Let_def)

text \<open>On a registry with the prototype \<^verbatim>\<open>Object.prototype\<close> the assignment never
  throws, and the lookup under the key then finds the function: as an own property, or,
  for \<^verbatim>\<open>__proto__\<close>, as the new prototype.\<close>

lemma registerProvider_standard:
  assumes "proto providers = ObjectPrototype"
  shows "registerProvider toLowerCase n f properties providers =
           Inr (if toLowerCase n = ''__proto__'' \<and> own providers ''__proto__'' = None
                then providers\<lparr>proto := FunctionPrototype f properties\<rparr>
                else providers\<lparr>own := (own providers)(toLowerCase n \<mapsto> f)\<rparr>)"
  using assms by (auto simp: registerProvider_def Let_def)

lemma providers_get_registered:
  assumes "registerProvider toLowerCase n f properties providers = Inr providers'"
    and "proto providers = ObjectPrototype"
  shows "providers_get providers' (toLowerCase n) = Registered f"
  using assms(1) unfolding registerProvider_standard [OF assms(2)]
  by (auto simp: providers_get_def split: if_splits)

lemma ascii_toLowerCase_examples:
  "ascii_toLowerCase [] = []"
  "ascii_toLowerCase ''default'' = ''default''"
  "ascii_toLowerCase ''openai'' = ''openai''"
  "ascii_toLowerCase ''ollama'' = ''ollama''"
  "ascii_toLowerCase ''OpenAI'' = ''openai''"
  "ascii_toLowerCase ''OPENAI'' = ''openai''"
  "ascii_toLowerCase ''Broken'' = ''broken''"
  "ascii_toLowerCase ''broken'' = ''broken''"
  "ascii_toLowerCase ''Silent'' = ''silent''"
  "ascii_toLowerCase ''silent'' = ''silent''"
  "ascii_toLowerCase ''Unregistered-Name'' = ''unregistered-name''"
  "ascii_toLowerCase ''constructor'' = ''constructor''"
  "ascii_toLowerCase ''__proto__'' = ''__proto__''"
  "ascii_toLowerCase ''__PROTO__'' = ''__proto__''"
  by (simp_all add: ascii_toLowerCase_def lower_char_def)

text \<open>The three registrations of the module give the example registry.\<close>

lemma builtin_providers_example:
  "builtin_providers ascii_toLowerCase example_new_Default example_new_OpenAI unread_properties =
     Inr example_providers"
  by (simp add: builtin_providers_def registerProvider_def resetRegistry_def Let_def
      ascii_toLowerCase_examples example_providers_def fun_upd_twist)

lemma registerProvider_returned:
  assumes "registerProvider toLowerCase n f properties providers = Inr providers'"
  shows "providers' =
           (if toLowerCase n = ''__proto__'' \<and> own providers ''__proto__'' = None
            then providers\<lparr>proto := FunctionPrototype f properties\<rparr>
            else providers\<lparr>own := (own providers)(toLowerCase n \<mapsto> f)\<rparr>)"
  using assms
  by (auto simp: registerProvider_def Let_def split: if_splits prototype.splits assignment.splits)

lemma providers_get_returned:
  assumes "registerProvider toLowerCase n f properties providers = Inr providers'"
  shows "providers_get providers' (toLowerCase n) = Registered f"
  unfolding registerProvider_returned [OF assms]
  by (auto simp: providers_get_def)

text \<open>
  Claim C8, amended by the one condition that \<open>m\<close> is not empty. When
  \<^verbatim>\<open>registerProvider\<close> returns, as it always does on a registry whose prototype is
  \<^verbatim>\<open>Object.prototype\<close>, the lookup under the lowercased name finds the function: it
  has become the entry under that name, any entry there overwritten and the others left
  (or, for the name \<^verbatim>\<open>__proto__\<close> without an entry, the prototype of the registry,
  the entries left). For every non-empty \<open>m\<close> with the lowercase form of \<open>n\<close>,
  \<^verbatim>\<open>createService\<close> with \<^verbatim>\<open>config.provider = m\<close> then invokes that function
  with the config, once, and returns what it returns or throws what it throws (or what
  \<^verbatim>\<open>getModelInfo\<close> of the new service throws). Every other non-empty name with the
  same lowercase form is looked up under the same key, in any registry; the empty name is
  looked up under the lowercase form of \<^verbatim>\<open>default\<close>.
\<close>

theorem createService_case_insensitive:
  assumes "registerProvider toLowerCase n f properties providers = Inr providers'"
    and "provider config = Some m" and "m \<noteq> []" and "toLowerCase m = toLowerCase n"
  shows "providers_get providers' (toLowerCase n) = Registered f
       \<and> providers' =
           (if toLowerCase n = ''__proto__'' \<and> own providers ''__proto__'' = None
            then providers\<lparr>proto := FunctionPrototype f properties\<rparr>
            else providers\<lparr>own := (own providers)(toLowerCase n \<mapsto> f)\<rparr>)
       \<and> createService toLowerCase providers' config =
           (case f config of
              Inl e \<Rightarrow> (Inl e, [Invoked (toLowerCase n) config])
            | Inr service \<Rightarrow>
                (case getModelInfo service 0 of
                   Inl e \<Rightarrow> (Inl e, [Invoked (toLowerCase n) config])
                 | Inr info \<Rightarrow> (Inr service, [Invoked (toLowerCase n) config])))
       \<and> (\<forall>(config' :: EmbeddingServiceConfig) m'. provider config' = Some m' \<longrightarrow> m' \<noteq> [] \<longrightarrow>
              toLowerCase m' = toLowerCase m \<longrightarrow>
              providers_get others (resolve_name toLowerCase config') =
              providers_get others (resolve_name toLowerCase config))
       \<and> (\<forall>config' :: EmbeddingServiceConfig. provider config' = Some [] \<longrightarrow>
              resolve_name toLowerCase config' = toLowerCase ''default'')
       \<and> (\<forall>standard n' f' properties'. proto standard = ObjectPrototype \<longrightarrow>
              (\<exists>registry'. registerProvider toLowerCase n' f' properties' standard =
                 Inr registry'))"
proof -
  have found: "providers_get providers' (toLowerCase n) = Registered f"
    by (rule providers_get_returned [OF assms(1)])
  have name: "resolve_name toLowerCase config = toLowerCase n"
    using assms by (simp add: resolve_name_Some)
  have invoked: "createService toLowerCase providers' config =
           (case f config of
              Inl e \<Rightarrow> (Inl e, [Invoked (toLowerCase n) config])
            | Inr service \<Rightarrow>
                (case getModelInfo service 0 of
                   Inl e \<Rightarrow> (Inl e, [Invoked (toLowerCase n) config])
                 | Inr info \<Rightarrow> (Inr service, [Invoked (toLowerCase n) config])))"
    using createService_Registered [of providers' toLowerCase config f] found
    unfolding name by simp
  have same: "\<forall>(config' :: EmbeddingServiceConfig) m'. provider config' = Some m' \<longrightarrow> m' \<noteq> [] \<longrightarrow>
                toLowerCase m' = toLowerCase m \<longrightarrow>
                providers_get others (resolve_name toLowerCase config') =
                providers_get others (resolve_name toLowerCase config)"
    using assms(2,3) by (simp add: resolve_name_Some)
  have empty: "\<forall>config' :: EmbeddingServiceConfig. provider config' = Some [] \<longrightarrow>
                resolve_name toLowerCase config' = toLowerCase ''default''"
    by (simp add: resolve_name_default)
  have returns: "\<forall>standard n' f' properties'. proto standard = ObjectPrototype \<longrightarrow>
              (\<exists>registry'. registerProvider toLowerCase n' f' properties' standard =
                 Inr registry')"
    by (simp add: registerProvider_standard)
  show ?thesis
    using found registerProvider_returned [OF assms(1)] invoked same empty returns by blast
qed

text \<open>Registered as \<open>OpenAI\<close> and asked for as \<open>OPENAI\<close>; and registered as
  \<open>__PROTO__\<close>, where the function becomes the prototype, and asked for as
  \<open>__proto__\<close>.\<close>

theorem createService_case_insensitive_witness:
  "registerProvider ascii_toLowerCase ''OpenAI'' example_new_OpenAI unread_properties
     resetRegistry =
     Inr \<lparr> own = [''openai'' \<mapsto> example_new_OpenAI], proto = ObjectPrototype \<rparr>
   \<and> createService ascii_toLowerCase
       \<lparr> own = [''openai'' \<mapsto> example_new_OpenAI], proto = ObjectPrototype \<rparr>
       (example_config (Some ''OPENAI'')) =
       (Inr (OtherService ''OpenAIEmbeddingService'' (example_info ''text-embedding-3-small'' 1536)),
        [Invoked ''openai'' (example_config (Some ''OPENAI''))])
   \<and> registerProvider ascii_toLowerCase ''__PROTO__'' example_new_OpenAI unread_properties
       resetRegistry =
       Inr \<lparr> own = Map.empty, proto = FunctionPrototype example_new_OpenAI unread_properties \<rparr>
   \<and> createService ascii_toLowerCase
       \<lparr> own = Map.empty, proto = FunctionPrototype example_new_OpenAI unread_properties \<rparr>
       (example_config (Some ''__proto__'')) =
       (Inr (OtherService ''OpenAIEmbeddingService'' (example_info ''text-embedding-3-small'' 1536)),
        [Invoked ''__proto__'' (example_config (Some ''__proto__''))])"
proof -
  have r1: "registerProvider ascii_toLowerCase ''OpenAI'' example_new_OpenAI unread_properties
     resetRegistry =
     Inr \<lparr> own = [''openai'' \<mapsto> example_new_OpenAI], proto = ObjectPrototype \<rparr>"
    by (simp add: registerProvider_def Let_def resetRegistry_def ascii_toLowerCase_examples)
  have r2: "registerProvider ascii_toLowerCase ''__PROTO__'' example_new_OpenAI unread_properties
       resetRegistry =
       Inr \<lparr> own = Map.empty, proto = FunctionPrototype example_new_OpenAI unread_properties \<rparr>"
    by (simp add: registerProvider_def Let_def resetRegistry_def ascii_toLowerCase_examples)
  have h: "provider (example_config (Some ''OPENAI'')) = Some ''OPENAI''"
    "''OPENAI'' \<noteq> []"
    "ascii_toLowerCase ''OPENAI'' = ascii_toLowerCase ''OpenAI''"
    by (simp_all add: ascii_toLowerCase_examples example_config_def)
  have k: "provider (example_config (Some ''__proto__'')) = Some ''__proto__''"
    "''__proto__'' \<noteq> []"
    "ascii_toLowerCase ''__proto__'' = ascii_toLowerCase ''__PROTO__''"
    by (simp_all add: ascii_toLowerCase_examples example_config_def)
  show ?thesis
    using r1 r2 createService_case_insensitive [OF r1 h, THEN conjunct2, THEN conjunct2, THEN conjunct1]
      createService_case_insensitive [OF r2 k, THEN conjunct2, THEN conjunct2, THEN conjunct1]
    by (simp add: ascii_toLowerCase_examples example_new_OpenAI_def example_config_def
        example_info_def)
qed

text \<open>As stated for every name, C8 fails on the empty name: a constructor registered
  under it is the entry under the empty key, and \<^verbatim>\<open>createService\<close> with the empty
  \<^verbatim>\<open>config.provider\<close> asks for \<^verbatim>\<open>default\<close> instead and invokes nothing.\<close>

theorem createService_case_insensitive_counterexample:
  "ascii_toLowerCase '''' = ascii_toLowerCase ''''
   \<and> registerProvider ascii_toLowerCase '''' example_new_OpenAI unread_properties resetRegistry =
       Inr \<lparr> own = ['''' \<mapsto> example_new_OpenAI], proto = ObjectPrototype \<rparr>
   \<and> createService ascii_toLowerCase
       \<lparr> own = ['''' \<mapsto> example_new_OpenAI], proto = ObjectPrototype \<rparr>
       (example_config (Some '''')) =
       (Inl (Error (not_registered_message ''default'')), [])"
  by (simp add: createService_def resolve_name_def providers_get_def registerProvider_def
      resetRegistry_def example_config_def ascii_toLowerCase_examples Let_def)


section \<open>The factory: names that are not registered\<close>

lemma providers_get_standard:
  "proto providers = ObjectPrototype \<Longrightarrow>
     providers_get providers key = NotFound \<longleftrightarrow>
       own providers key = None \<and> key \<noteq> ''constructor'' \<and> key \<noteq> ''__proto__''"
  by (auto simp: providers_get_def split: option.splits)

text \<open>
  Claim C5, amended. For every non-empty provider name under whose lowercase form the
  lookup in the registry finds nothing, \<^verbatim>\<open>createService\<close> throws the error that the
  provider is not registered, with the lowercased name in its message, and invokes no
  constructor. In a registry with the prototype \<^verbatim>\<open>Object.prototype\<close> the lookup
  finds nothing under the keys that have no entry, \<^verbatim>\<open>constructor\<close> and
  \<^verbatim>\<open>__proto__\<close> apart. An empty \<^verbatim>\<open>config.provider\<close> is treated as an absent
  one: the lookup is under the lowercase form of \<^verbatim>\<open>default\<close>, and a constructor
  found there is invoked.
\<close>

theorem createService_not_registered:
  assumes "provider config = Some m" and "m \<noteq> []"
    and "providers_get providers (toLowerCase m) = NotFound"
  shows "createService toLowerCase providers config =
           (Inl (Error (''Provider '' @ [CHR 0x22] @ toLowerCase m @ [CHR 0x22] @
                   '' is not registered'')), [])
       \<and> (\<forall>standard key. proto standard = ObjectPrototype \<longrightarrow>
             (providers_get standard key = NotFound \<longleftrightarrow>
                own standard key = None \<and> key \<noteq> ''constructor'' \<and> key \<noteq> ''__proto__''))
       \<and> (\<forall>(config' :: EmbeddingServiceConfig) others f.
             provider config' = Some [] \<or> provider config' = None \<longrightarrow>
             providers_get others (toLowerCase ''default'') = Registered f \<longrightarrow>
             createService toLowerCase others config' =
               (case f config' of
                  Inl e \<Rightarrow> (Inl e, [Invoked (toLowerCase ''default'') config'])
                | Inr service \<Rightarrow>
                    (case getModelInfo service 0 of
                       Inl e \<Rightarrow> (Inl e, [Invoked (toLowerCase ''default'') config'])
                     | Inr info \<Rightarrow> (Inr service, [Invoked (toLowerCase ''default'') config']))))"
proof -
  have first: "createService toLowerCase providers config =
           (Inl (Error (''Provider '' @ [CHR 0x22] @ toLowerCase m @ [CHR 0x22] @
                   '' is not registered'')), [])"
    using assms
    by (simp add: createService_def resolve_name_def not_registered_message_def)
  have second: "\<forall>standard key. proto standard = ObjectPrototype \<longrightarrow>
             (providers_get standard key = NotFound \<longleftrightarrow>
                own standard key = None \<and> key \<noteq> ''constructor'' \<and> key \<noteq> ''__proto__'')"
    using providers_get_standard by blast
  have third: "\<forall>(config' :: EmbeddingServiceConfig) others f.
             provider config' = Some [] \<or> provider config' = None \<longrightarrow>
             providers_get others (toLowerCase ''default'') = Registered f \<longrightarrow>
             createService toLowerCase others config' =
               (case f config' of
                  Inl e \<Rightarrow> (Inl e, [Invoked (toLowerCase ''default'') config'])
                | Inr service \<Rightarrow>
                    (case getModelInfo service 0 of
                       Inl e \<Rightarrow> (Inl e, [Invoked (toLowerCase ''default'') config'])
                     | Inr info \<Rightarrow> (Inr service, [Invoked (toLowerCase ''default'') config'])))"
  proof (intro allI impI)
    fix config' :: EmbeddingServiceConfig and others f
    assume a: "provider config' = Some [] \<or> provider config' = None"
      and b: "providers_get others (toLowerCase ''default'') = Registered f"
    have n: "resolve_name toLowerCase config' = toLowerCase ''default''"
      by (rule resolve_name_default [OF a])
    show "createService toLowerCase others config' =
               (case f config' of
                  Inl e \<Rightarrow> (Inl e, [Invoked (toLowerCase ''default'') config'])
                | Inr service \<Rightarrow>
                    (case getModelInfo service 0 of
                       Inl e \<Rightarrow> (Inl e, [Invoked (toLowerCase ''default'') config'])
                     | Inr info \<Rightarrow> (Inr service, [Invoked (toLowerCase ''default'') config'])))"
      using createService_Registered [of others toLowerCase config' f] b unfolding n by simp
  qed
  show ?thesis using first second third by blast
qed

theorem createService_not_registered_witness:
  "createService ascii_toLowerCase example_providers
     (example_config (Some ''Unregistered-Name'')) =
     (Inl (Error (''Provider '' @ [CHR 0x22] @ ''unregistered-name'' @ [CHR 0x22] @
             '' is not registered'')), [])"
proof -
  have h: "provider (example_config (Some ''Unregistered-Name'')) = Some ''Unregistered-Name''"
    "''Unregistered-Name'' \<noteq> []"
    "providers_get example_providers (ascii_toLowerCase ''Unregistered-Name'') = NotFound"
    by (simp_all add: ascii_toLowerCase_examples example_config_def example_providers_def
        providers_get_def)
  show ?thesis
    using h createService_not_registered [where toLowerCase = ascii_toLowerCase
        and m = "''Unregistered-Name''" and providers = example_providers
        and config = "example_config (Some ''Unregistered-Name'')", THEN conjunct1]
    by (simp add: ascii_toLowerCase_examples)
qed

text \<open>As stated for every name that is not in the registry, C5 fails on the empty name:
  it is no key of the registry the module builds, and \<^verbatim>\<open>createService\<close> with the
  empty \<^verbatim>\<open>config.provider\<close> resolves it to \<^verbatim>\<open>default\<close>, invokes that constructor
  and returns its service.\<close>

theorem createService_not_registered_counterexample:
  "own example_providers (ascii_toLowerCase '''') = None
   \<and> createService ascii_toLowerCase example_providers (example_config (Some '''')) =
       (Inr (OtherService ''DefaultEmbeddingService'' (example_info ''memento-mcp-mock'' 1536)),
        [Invoked ''default'' (example_config (Some ''''))])"
  by (simp add: createService_def resolve_name_def providers_get_def example_providers_def
      example_config_def ascii_toLowerCase_examples default_provider_def example_new_Default_def
      example_info_def)

text \<open>
  The two names the registry object inherits are answered otherwise: unless a constructor
  has been registered under it, \<^verbatim>\<open>constructor\<close> finds the function \<^verbatim>\<open>Object\<close>
  and \<^verbatim>\<open>__proto__\<close> the prototype object, both truthy, and the call ends in a
  \<^verbatim>\<open>TypeError\<close> in place of the error for a name that is not registered.
\<close>

lemma createService_inherited_name:
  "createService ascii_toLowerCase example_providers (example_config (Some ''constructor'')) =
     (Inl (TypeError ''service.getModelInfo is not a function''), [])"
  "createService ascii_toLowerCase example_providers (example_config (Some ''__proto__'')) =
     (Inl (TypeError ''providerFn is not a function''), [])"
  by (simp_all add: createService_def resolve_name_def providers_get_def example_providers_def
      example_config_def ascii_toLowerCase_examples object_constructor_def)


section \<open>The factory: the model info of a new service\<close>

text \<open>
  Claim C9. \<^verbatim>\<open>createService\<close> calls \<^verbatim>\<open>getModelInfo\<close> on the service the
  constructor has just returned, before it returns the service: when that call throws,
  \<^verbatim>\<open>createService\<close> throws the same error, although a constructor was invoked and
  returned a service; and a service that \<^verbatim>\<open>createService\<close> returns has answered
  the call.
\<close>

theorem createService_getModelInfo_throws:
  "(providers_get providers (resolve_name toLowerCase config) = Registered f \<longrightarrow>
      f config = Inr service \<longrightarrow> getModelInfo service 0 = Inl e \<longrightarrow>
      createService toLowerCase providers config =
        (Inl e, [Invoked (resolve_name toLowerCase config) config]))
   \<and> (createService toLowerCase providers config = (Inr service', calls) \<longrightarrow>
        (\<exists>info. getModelInfo service' 0 = Inr info))"
proof -
  have "createService toLowerCase providers config = (Inr service', calls) \<Longrightarrow>
          \<exists>info. getModelInfo service' 0 = Inr info"
    by (cases "providers_get providers (resolve_name toLowerCase config)")
      (auto simp: createService_def Let_def split: sum.splits)
  then show ?thesis
    using createService_Registered [of providers toLowerCase config f] by auto
qed

theorem createService_getModelInfo_throws_witness:
  "createService ascii_toLowerCase
     \<lparr> own = [''silent'' \<mapsto> silent_provider], proto = ObjectPrototype \<rparr>
     (example_config (Some ''Silent'')) =
     (Inl (Error ''model info unavailable''), [Invoked ''silent'' (example_config (Some ''Silent''))])"
proof -
  let ?providers = "\<lparr> own = [''silent'' \<mapsto> silent_provider], proto = ObjectPrototype \<rparr>"
  have n: "resolve_name ascii_toLowerCase (example_config (Some ''Silent'')) = ''silent''"
    by (simp add: resolve_name_def example_config_def ascii_toLowerCase_examples)
  have h: "providers_get ?providers
             (resolve_name ascii_toLowerCase (example_config (Some ''Silent''))) =
           Registered silent_provider"
    "silent_provider (example_config (Some ''Silent'')) = Inr (OtherService ''SilentService'' no_info)"
    "getModelInfo (OtherService ''SilentService'' no_info) 0 = Inl (Error ''model info unavailable'')"
    by (simp_all add: n providers_get_def silent_provider_def no_info_def)
  show ?thesis
    using createService_getModelInfo_throws [THEN conjunct1, rule_format, OF h] by (simp add: n)
qed


section \<open>The factory: a service from the environment\<close>

text \<open>
  Claim C3, amended. Given that the logger returns from its calls outside the
  \<^verbatim>\<open>try\<close> block (the first one, the one of the mock branch, and the two of the
  \<^verbatim>\<open>catch\<close> block) and that the default service can be constructed,
  \<^verbatim>\<open>createFromEnvironment\<close> returns a service and throws nothing, whatever the
  environment holds and whatever the registered constructors do: with the flag for mock
  embeddings it returns the default service at once, and when anything inside its
  \<^verbatim>\<open>try\<close> block throws (the logger; \<^verbatim>\<open>createService\<close>, as for a name that is
  not registered or a constructor that throws; or a later \<^verbatim>\<open>getModelInfo\<close>), it
  returns the default service in place of the error.
\<close>

theorem createFromEnvironment_never_raises:
  assumes "new_Default None = Inr fallback"
    and "logger LogDebug ''EmbeddingServiceFactory: Creating service from environment variables''
           = None"
    and "logger LogInfo ''EmbeddingServiceFactory: Using mock embeddings for testing'' = None"
    and "logger LogError
           (''EmbeddingServiceFactory: Failed to create '' @
            or_default (env ''EMBEDDING_PROVIDER'') ''default'' @ '' service'') = None"
    and "logger LogInfo ''EmbeddingServiceFactory: Falling back to default embedding service''
           = None"
  shows "(\<exists>service.
            fst (createFromEnvironment logger toLowerCase new_Default env providers) = Inr service)
       \<and> (env ''MOCK_EMBEDDINGS'' = Some ''true'' \<longrightarrow>
            createFromEnvironment logger toLowerCase new_Default env providers =
              (Inr fallback, []))
       \<and> (env ''MOCK_EMBEDDINGS'' \<noteq> Some ''true'' \<longrightarrow>
            fst (createFromEnvironment_try logger toLowerCase providers
                   (or_default (env ''EMBEDDING_PROVIDER'') ''default'') (environment_config env))
              = Inl e \<longrightarrow>
            fst (createFromEnvironment logger toLowerCase new_Default env providers) =
              Inr fallback)
       \<and> (env ''MOCK_EMBEDDINGS'' \<noteq> Some ''true'' \<longrightarrow>
            fst (createService toLowerCase providers (environment_config env)) = Inl e' \<longrightarrow>
            fst (createFromEnvironment logger toLowerCase new_Default env providers) =
              Inr fallback)"
proof -
  let ?name = "or_default (env ''EMBEDDING_PROVIDER'') ''default''"
  let ?attempt = "createFromEnvironment_try logger toLowerCase providers ?name (environment_config env)"
  have total: "\<exists>service.
      fst (createFromEnvironment logger toLowerCase new_Default env providers) = Inr service"
    using assms
    by (cases ?attempt) (auto simp: createFromEnvironment_def Let_def split: sum.splits)
  have mock: "env ''MOCK_EMBEDDINGS'' = Some ''true'' \<longrightarrow>
      createFromEnvironment logger toLowerCase new_Default env providers = (Inr fallback, [])"
    using assms by (simp add: createFromEnvironment_def)
  have caught: "env ''MOCK_EMBEDDINGS'' \<noteq> Some ''true'' \<longrightarrow> fst ?attempt = Inl x \<longrightarrow>
      fst (createFromEnvironment logger toLowerCase new_Default env providers) = Inr fallback"
    for x
    using assms
    by (cases ?attempt) (auto simp: createFromEnvironment_def Let_def split: sum.splits)
  have "fst (createService toLowerCase providers (environment_config env)) = Inl e' \<Longrightarrow>
      \<exists>x. fst ?attempt = Inl x"
    by (cases "createService toLowerCase providers (environment_config env)")
      (auto simp: createFromEnvironment_try_def split: option.splits)
  then show ?thesis
    using total mock caught by blast
qed

text \<open>A constructor that always throws, registered beside the built-in ones and named
  by the environment, and a logger that returns.\<close>

theorem createFromEnvironment_never_raises_witness:
  "createFromEnvironment quiet_logger ascii_toLowerCase example_new_Default
     [''EMBEDDING_PROVIDER'' \<mapsto> ''Broken'']
     (example_providers\<lparr>own := (own example_providers)(''broken'' \<mapsto> failing_provider)\<rparr>) =
     (Inr (OtherService ''DefaultEmbeddingService'' (example_info ''memento-mcp-mock'' 1536)),
      [Invoked ''broken'' (example_config (Some ''Broken''))])"
proof -
  let ?env = "[''EMBEDDING_PROVIDER'' \<mapsto> ''Broken'']"
  let ?providers =
    "example_providers\<lparr>own := (own example_providers)(''broken'' \<mapsto> failing_provider)\<rparr>"
  have d: "example_new_Default None =
      Inr (OtherService ''DefaultEmbeddingService'' (example_info ''memento-mcp-mock'' 1536))"
    by (simp add: example_new_Default_def)
  have c: "environment_config ?env = example_config (Some ''Broken'')"
    by (simp add: environment_config_def example_config_def)
  have s: "createService ascii_toLowerCase ?providers (environment_config ?env) =
      (Inl (Error ''constructor failed''), [Invoked ''broken'' (example_config (Some ''Broken''))])"
    unfolding c
    by (simp add: createService_def Let_def resolve_name_def providers_get_def
        example_config_def ascii_toLowerCase_examples failing_provider_def)
  have m: "?env ''MOCK_EMBEDDINGS'' \<noteq> Some ''true''" by simp
  have "fst (createFromEnvironment quiet_logger ascii_toLowerCase example_new_Default ?env
          ?providers) =
      Inr (OtherService ''DefaultEmbeddingService'' (example_info ''memento-mcp-mock'' 1536))"
    using m s createFromEnvironment_never_raises [where new_Default = example_new_Default
        and fallback = "OtherService ''DefaultEmbeddingService'' (example_info ''memento-mcp-mock'' 1536)"
        and logger = quiet_logger and toLowerCase = ascii_toLowerCase
        and env = ?env and providers = ?providers and e' = "Error ''constructor failed''", OF d]
    by (simp add: quiet_logger_def)
  moreover have "snd (createFromEnvironment quiet_logger ascii_toLowerCase example_new_Default
          ?env ?providers) =
      [Invoked ''broken'' (example_config (Some ''Broken''))]"
    using s
    by (simp add: createFromEnvironment_def createFromEnvironment_try_def quiet_logger_def)
  ultimately show ?thesis
    by (simp add: prod_eq_iff)
qed

text \<open>As stated, C3 fails where the logger throws outside the \<^verbatim>\<open>try\<close> block: with
  the same constructor and a logger whose method \<^verbatim>\<open>error\<close> throws, the
  \<^verbatim>\<open>catch\<close> block is left by that error before the default service is constructed,
  and \<^verbatim>\<open>createFromEnvironment\<close> throws it.\<close>

theorem createFromEnvironment_never_raises_counterexample:
  "createFromEnvironment broken_logger ascii_toLowerCase example_new_Default
     [''EMBEDDING_PROVIDER'' \<mapsto> ''Broken'']
     (example_providers\<lparr>own := (own example_providers)(''broken'' \<mapsto> failing_provider)\<rparr>) =
     (Inl (Error ''logger failed''), [Invoked ''broken'' (example_config (Some ''Broken''))])"
  by (simp add: createFromEnvironment_def createFromEnvironment_try_def createService_def Let_def
      resolve_name_def providers_get_def environment_config_def example_config_def
      ascii_toLowerCase_examples failing_provider_def broken_logger_def)


end
